theory Spec2Isabelle
  imports Complex_Main "HOL-Library.Log_Nat"
begin

section \<open>Strings, paths and exceptions\<close>

text \<open>
  A Python string is modelled as a \<^typ>\<open>string\<close>: the UTF-8 bytes of its text. The two
  non-ASCII characters of the log messages are written as their bytes.

  \<^verbatim>\<open>str.lower()\<close> follows the Unicode tables of the interpreter; it is a function of the
  library (field \<open>str_lower\<close> of \<open>lib\<close> below). \<^verbatim>\<open>str.capitalize()\<close> is only ever called on
  one of the words \<^verbatim>\<open>image\<close>, \<^verbatim>\<open>video\<close>, \<^verbatim>\<open>audio\<close>, where it is the ASCII conversion
  defined here.
\<close>

definition ascii_uppercase :: string where
  "ascii_uppercase = ''ABCDEFGHIJKLMNOPQRSTUVWXYZ''"

definition ascii_lowercase :: string where
  "ascii_lowercase = ''abcdefghijklmnopqrstuvwxyz''"

definition lower_char :: "char \<Rightarrow> char" where
  "lower_char c = (case map_of (zip ascii_uppercase ascii_lowercase) c of Some d \<Rightarrow> d | None \<Rightarrow> c)"

definition upper_char :: "char \<Rightarrow> char" where
  "upper_char c = (case map_of (zip ascii_lowercase ascii_uppercase) c of Some d \<Rightarrow> d | None \<Rightarrow> c)"

text \<open>\<^verbatim>\<open>str.capitalize()\<close> on ASCII text.\<close>

fun capitalize :: "string \<Rightarrow> string" where
  "capitalize [] = []"
| "capitalize (c # cs) = upper_char c # map lower_char cs"

text \<open>\<^verbatim>\<open>str(n)\<close> for a non-negative integer: its decimal digits.\<close>

definition digit_char :: "nat \<Rightarrow> char" where
  "digit_char d = ''0123456789'' ! d"

fun str_nat :: "nat \<Rightarrow> string" where
  "str_nat n = (if n < 10 then [digit_char n] else str_nat (n div 10) @ [digit_char (n mod 10)])"

declare str_nat.simps [simp del]

text \<open>The arrow of the \<^verbatim>\<open>Moved:\<close> line (U+2192) and the dash of the completion message (U+2014).\<close>

definition rightwards_arrow :: string where
  "rightwards_arrow = [CHR 0xE2, CHR 0x86, CHR 0x92]"

definition em_dash :: string where
  "em_dash = [CHR 0xE2, CHR 0x80, CHR 0x94]"

text \<open>
  A \<^verbatim>\<open>pathlib.Path\<close> is the list of its segments; \<^verbatim>\<open>p / s\<close> appends a segment,
  \<^verbatim>\<open>str(p)\<close> joins the segments with the separator.
\<close>

type_synonym path = "string list"

definition join_path :: "path \<Rightarrow> string \<Rightarrow> path" where
  "join_path p s = p @ [s]"

fun str_path :: "path \<Rightarrow> string" where
  "str_path [] = ''.''"
| "str_path [s] = s"
| "str_path (s # t # ts) = s @ ''/'' @ str_path (t # ts)"

text \<open>
  Exceptions are values: the instances of \<^verbatim>\<open>Exception\<close>, which is what \<^verbatim>\<open>except Exception\<close>
  catches. \<open>str_error\<close> is \<^verbatim>\<open>str(e)\<close>.
\<close>

datatype error = OSError string | ValueError string | OverflowError string | RuntimeError string

fun str_error :: "error \<Rightarrow> string" where
  "str_error (OSError m) = m"
| "str_error (ValueError m) = m"
| "str_error (OverflowError m) = m"
| "str_error (RuntimeError m) = m"

text \<open>\<^verbatim>\<open>p.relative_to(base)\<close>: the segments of \<open>p\<close> below \<open>base\<close>, or \<^verbatim>\<open>ValueError\<close>.\<close>

fun relative_to :: "path \<Rightarrow> path \<Rightarrow> error + path" where
  "relative_to p [] = Inr p"
| "relative_to [] (b # bs) = Inl (ValueError ''path is not in the subpath of the base'')"
| "relative_to (s # ss) (b # bs) =
     (if s = b then relative_to ss bs
      else Inl (ValueError ''path is not in the subpath of the base''))"

section \<open>The environment of a run\<close>

text \<open>
  The program calls into the standard library and the operating system. What they answer
  is an input of the model.

  The library functions and the clock are the fields of \<open>lib\<close>: the digest
  \<^verbatim>\<open>hashlib.md5\<close> of a byte string, \<^verbatim>\<open>str.lower\<close>, \<^verbatim>\<open>mimetypes.guess_type(...)[0]\<close>
  (a MIME type, \<^verbatim>\<open>None\<close>, or the exception that the call raises: it parses its argument
  as a URL and rejects some strings with \<^verbatim>\<open>ValueError\<close>), \<^verbatim>\<open>datetime.fromtimestamp\<close> (which
  depends on the local time zone, and raises on a timestamp that is out of range), and the
  two readings of \<^verbatim>\<open>time.time()\<close>.
\<close>

record datetime =
  year :: nat
  month :: nat
  day :: nat

record lib =
  md5 :: "string \<Rightarrow> string"
  str_lower :: "string \<Rightarrow> string"
  guess_type :: "string \<Rightarrow> error + string option"
  fromtimestamp :: "rat \<Rightarrow> error + datetime"
  time_start :: rat
  time_end :: rat

text \<open>
  A directory entry as the run observes it. \<open>name\<close> and \<open>suffix\<close> are the attributes of
  the \<^verbatim>\<open>Path\<close> object, \<open>is_file\<close> the answer of \<^verbatim>\<open>f.is_file()\<close>. The other fields are
  what the operating system answers while the entry is processed:
  \<open>st_size\<close> is the outcome of \<^verbatim>\<open>file.stat().st_size\<close>, \<open>st_mtime\<close> the outcome of
  \<^verbatim>\<open>file.stat().st_mtime\<close>, \<open>content\<close> the bytes of the file and \<open>read_error\<close> the
  exception that opening or reading it raises (if any), \<open>mkdir_error\<close> and \<open>move_error\<close>
  the exception raised by the one \<^verbatim>\<open>mkdir\<close> and the one \<^verbatim>\<open>shutil.move\<close> issued for
  the entry (if any). Every entry is the subject of at most one \<^verbatim>\<open>mkdir\<close> and one move.
\<close>

record file_entry =
  name :: string
  suffix :: string
  is_file :: bool
  st_size :: "error + nat"
  st_mtime :: "error + rat"
  content :: string
  read_error :: "error option"
  mkdir_error :: "error option"
  move_error :: "error option"

section \<open>Categorizer\<close>

definition FILE_CATEGORIES :: "(string \<times> string list) list" where
  "FILE_CATEGORIES =
    [(''Documents'', [''.pdf'', ''.docx'', ''.txt'', ''.pptx'', ''.xlsx'', ''.csv'']),
     (''Images'', [''.jpg'', ''.jpeg'', ''.png'', ''.gif'', ''.bmp'', ''.svg'']),
     (''Videos'', [''.mp4'', ''.mkv'', ''.avi'', ''.mov'']),
     (''Music'', [''.mp3'', ''.wav'', ''.aac'', ''.flac'']),
     (''Archives'', [''.zip'', ''.rar'', ''.tar'', ''.gz''])]"

text \<open>The \<^verbatim>\<open>for cat, exts in FILE_CATEGORIES.items()\<close> loop: the first category that lists the extension.\<close>

fun find_category :: "(string \<times> string list) list \<Rightarrow> string \<Rightarrow> string option" where
  "find_category [] ext = None"
| "find_category ((cat, exts) # rest) ext =
     (if ext \<in> set exts then Some cat else find_category rest ext)"

text \<open>\<^verbatim>\<open>mime.split("/")[0]\<close>.\<close>

definition main_type_of :: "string \<Rightarrow> string" where
  "main_type_of mime = takeWhile (\<lambda>c. c \<noteq> CHR ''/'') mime"

text \<open>The result is the category, or the exception that \<^verbatim>\<open>guess_type\<close> raised.\<close>

definition get_category :: "lib \<Rightarrow> string \<Rightarrow> error + string" where
  "get_category l extension =
     (let ext = str_lower l extension in
      case find_category FILE_CATEGORIES ext of
        Some cat \<Rightarrow> Inr cat
      | None \<Rightarrow>
          (case guess_type l (''file'' @ ext) of
             Inl e \<Rightarrow> Inl e
           | Inr None \<Rightarrow> Inr ''Others''
           | Inr (Some mime) \<Rightarrow>
               if mime = [] then Inr ''Others''
               else
                 (let main_type = main_type_of mime in
                  if main_type \<in> set [''image'', ''video'', ''audio'']
                  then Inr (capitalize main_type @ ''s'')
                  else Inr ''Others'')))"

section \<open>Hasher\<close>

text \<open>
  The hasher object is the byte string fed to it so far; \<^verbatim>\<open>update\<close> appends, and
  \<^verbatim>\<open>hexdigest\<close> is the digest of what was fed. The loop reads blocks of \<open>block_size\<close>
  bytes until a read returns nothing.
\<close>

function read_blocks :: "nat \<Rightarrow> string \<Rightarrow> string \<Rightarrow> string" where
  "read_blocks block_size rest hasher =
     (let buf = take block_size rest in
      if length buf > 0 then read_blocks block_size (drop block_size rest) (hasher @ buf)
      else hasher)"
  by pat_completeness auto
termination
  by (relation "measure (\<lambda>(block_size, rest, hasher). length rest)") auto

declare read_blocks.simps [simp del]

definition calculate_hash :: "lib \<Rightarrow> file_entry \<Rightarrow> string option" where
  "calculate_hash l f =
     (case read_error f of
        Some e \<Rightarrow> None
      | None \<Rightarrow> Some (md5 l (read_blocks 65536 (content f) [])))"

section \<open>Path resolver\<close>

text \<open>
  \<^verbatim>\<open>strftime("%Y")\<close> and \<^verbatim>\<open>strftime("%Y-%m")\<close>, as the C library of Linux formats them: the
  year in decimal without padding (\<^verbatim>\<open>987\<close> for the year 987), the month on two digits.
\<close>

definition zero_pad :: "nat \<Rightarrow> string \<Rightarrow> string" where
  "zero_pad w s = replicate (w - length s) (CHR ''0'') @ s"

definition strftime_Y :: "datetime \<Rightarrow> string" where
  "strftime_Y dt = str_nat (year dt)"

definition strftime_Y_m :: "datetime \<Rightarrow> string" where
  "strftime_Y_m dt = str_nat (year dt) @ ''-'' @ zero_pad 2 (str_nat (month dt))"

text \<open>
  The result is the destination, or the exception that \<^verbatim>\<open>file.stat()\<close> or
  \<^verbatim>\<open>datetime.fromtimestamp\<close> raised.
\<close>

definition get_destination_path :: "lib \<Rightarrow> path \<Rightarrow> file_entry \<Rightarrow> string \<Rightarrow> string \<Rightarrow> error + path" where
  "get_destination_path l folder f category organize_mode =
     (if organize_mode = ''Category Only'' then Inr (join_path folder category)
      else
        (case st_mtime f of
           Inl e \<Rightarrow> Inl e
         | Inr timestamp \<Rightarrow>
             (case fromtimestamp l timestamp of
                Inl e \<Rightarrow> Inl e
              | Inr dt_object \<Rightarrow>
                  (let year = strftime_Y dt_object;
                       month_year = strftime_Y_m dt_object
                   in if organize_mode = ''Category / Year''
                      then Inr (join_path (join_path folder category) year)
                      else if organize_mode = ''Category / Year-Month''
                      then Inr (join_path (join_path folder category) month_year)
                      else Inr (join_path folder category)))))"

section \<open>Floating-point arithmetic of the progress percentage\<close>

text \<open>
  \<^verbatim>\<open>int((i / total) * 100)\<close> divides two integers into a binary64 float, multiplies the
  float by 100 and truncates. Both operations round their exact result to the nearest
  float with a 53-bit significand, ties to even. \<open>float_round\<close> is that rounding on the
  rationals (the exponent range is not modelled: the values of a run are far from it).
\<close>

definition round_half_even :: "rat \<Rightarrow> int" where
  "round_half_even x =
     (let f = \<lfloor>x\<rfloor>; d = x - of_int f in
      if d < 1 / 2 then f else if 1 / 2 < d then f + 1 else if even f then f else f + 1)"

text \<open>The integer \<open>k\<close> with \<open>2 ^ k \<le> x < 2 ^ (k + 1)\<close>, for positive \<open>x\<close>.\<close>

definition binade :: "rat \<Rightarrow> int" where
  "binade x =
     (let (p, q) = quotient_of x; t = bitlen p - bitlen q in
      if 2 powi t \<le> x then t else t - 1)"

definition float_round :: "rat \<Rightarrow> rat" where
  "float_round x =
     (if x = 0 then 0
      else
        (let a = \<bar>x\<bar>; e = binade a - 52 in
         sgn x * (of_int (round_half_even (a / 2 powi e)) * 2 powi e)))"

text \<open>\<^verbatim>\<open>int(x)\<close> on a float truncates towards zero.\<close>

definition int_of_float :: "rat \<Rightarrow> int" where
  "int_of_float x = (if 0 \<le> x then \<lfloor>x\<rfloor> else \<lceil>x\<rceil>)"

definition percent :: "nat \<Rightarrow> nat \<Rightarrow> int" where
  "percent i total_n =
     int_of_float (float_round (float_round (of_nat i / of_nat total_n) * 100))"

text \<open>\<^verbatim>\<open>round(x, 3)\<close>, on the rationals.\<close>

definition round3 :: "rat \<Rightarrow> rat" where
  "round3 x = of_int (round_half_even (x * 1000)) / 1000"

section \<open>Orchestrator\<close>

text \<open>Dictionaries keep their insertion order: association lists.\<close>

definition dict_contains :: "('k \<times> 'v) list \<Rightarrow> 'k \<Rightarrow> bool" where
  "dict_contains d k = (k \<in> fst ` set d)"

definition dict_set :: "('k \<times> 'v) list \<Rightarrow> 'k \<Rightarrow> 'v \<Rightarrow> ('k \<times> 'v) list" where
  "dict_set d k v =
     (if dict_contains d k then map (\<lambda>(k', v'). if k' = k then (k', v) else (k', v')) d
      else d @ [(k, v)])"

definition dict_setdefault :: "('k \<times> 'v) list \<Rightarrow> 'k \<Rightarrow> 'v \<Rightarrow> ('k \<times> 'v) list" where
  "dict_setdefault d k v = (if dict_contains d k then d else d @ [(k, v)])"

definition dict_increment :: "('k \<times> nat) list \<Rightarrow> 'k \<Rightarrow> ('k \<times> nat) list" where
  "dict_increment d k = map (\<lambda>(k', v'). if k' = k then (k', v' + 1) else (k', v')) d"

record analytics =
  total_files :: nat
  total_size_bytes :: nat
  categories :: "(string \<times> nat) list"
  time_taken_sec :: rat
  duplicates_removed :: nat
  space_saved_bytes :: nat
  logs :: "string list"

text \<open>
  The effects of a run besides its return value: the calls of the progress callback, and
  the directory creations and moves that succeeded (\<open>Mkdir p parents\<close>, \<open>Move src dst\<close>).
\<close>

datatype fs_op = Mkdir path bool | Move path path

text \<open>
  The variables of the loop. \<open>saved_bytes\<close> is the local variable
  \<^verbatim>\<open>space_saved_bytes\<close>, which the dictionary entry of the same name receives after the loop.
\<close>

record state =
  analytics :: analytics
  seen_hashes :: "(string \<times> string) list"
  duplicate_files :: nat
  saved_bytes :: nat
  progress_events :: "(int \<times> string) list"
  fs_ops :: "fs_op list"

text \<open>How the \<^verbatim>\<open>try\<close> block of one iteration ends: normally with its \<^verbatim>\<open>log_entry\<close>, by an
  exception, or by \<^verbatim>\<open>continue\<close>.\<close>

datatype outcome = Completed string | Raised error | Continued

definition append_log :: "string \<Rightarrow> state \<Rightarrow> state" where
  "append_log log_entry s =
     s\<lparr>analytics := (analytics s)\<lparr>logs := logs (analytics s) @ [log_entry]\<rparr>\<rparr>"

definition perform :: "fs_op \<Rightarrow> state \<Rightarrow> state" where
  "perform op s = s\<lparr>fs_ops := fs_ops s @ [op]\<rparr>"

text \<open>
  The progress callback is code of the caller. It is modelled by what its calls do: for the
  list of the calls made so far, the last one being the current call, \<open>c calls\<close> is \<open>None\<close>
  when the current call returns and \<open>Some e\<close> when it raises \<open>e\<close>.
\<close>

type_synonym callback = "(int \<times> string) list \<Rightarrow> error option"

text \<open>
  \<^verbatim>\<open>if progress_callback: progress_callback(p, m)\<close>. The call is recorded, and the result
  carries the exception that it raised, if any.
\<close>

definition call_progress :: "callback option \<Rightarrow> int \<Rightarrow> string \<Rightarrow> state \<Rightarrow> state \<times> error option" where
  "call_progress progress_callback p m s =
     (case progress_callback of
        None \<Rightarrow> (s, None)
      | Some c \<Rightarrow>
          (s\<lparr>progress_events := progress_events s @ [(p, m)]\<rparr>,
           c (progress_events s @ [(p, m)])))"

text \<open>The updates of the counters: lines 103, 112 and 113, 126, and 130 and 131.\<close>

definition add_size :: "nat \<Rightarrow> state \<Rightarrow> state" where
  "add_size sz s =
     s\<lparr>analytics := (analytics s)\<lparr>total_size_bytes := total_size_bytes (analytics s) + sz\<rparr>\<rparr>"

definition count_duplicate :: "nat \<Rightarrow> state \<Rightarrow> state" where
  "count_duplicate sz s =
     s\<lparr>duplicate_files := duplicate_files s + 1, saved_bytes := saved_bytes s + sz\<rparr>"

definition remember_hash :: "string \<Rightarrow> string \<Rightarrow> state \<Rightarrow> state" where
  "remember_hash file_hash file_name s =
     s\<lparr>seen_hashes := dict_set (seen_hashes s) file_hash file_name\<rparr>"

definition count_category :: "string \<Rightarrow> state \<Rightarrow> state" where
  "count_category category s =
     s\<lparr>analytics := (analytics s)\<lparr>categories :=
         dict_increment (dict_setdefault (categories (analytics s)) category 0) category\<rparr>\<rparr>"

text \<open>Lines 128 to 139. \<open>log_entry\<close> is the value of the variable on entry; every path overwrites it.\<close>

definition organization_logic ::
  "lib \<Rightarrow> path \<Rightarrow> string \<Rightarrow> file_entry \<Rightarrow> string \<Rightarrow> state \<Rightarrow> state \<times> outcome" where
  "organization_logic l folder organize_mode f log_entry s =
     (case get_category l (suffix f) of
        Inl e \<Rightarrow> (s, Raised e)
      | Inr category \<Rightarrow>
          (let s1 = count_category category s
           in case get_destination_path l folder f category organize_mode of
                Inl e \<Rightarrow> (s1, Raised e)
              | Inr dest_dir \<Rightarrow>
                  (case mkdir_error f of
                     Some e \<Rightarrow> (s1, Raised e)
                   | None \<Rightarrow>
                       (let s2 = perform (Mkdir dest_dir True) s1 in
                        case move_error f of
                          Some e \<Rightarrow> (s2, Raised e)
                        | None \<Rightarrow>
                            (let s3 = perform (Move (join_path folder (name f))
                                                    (join_path dest_dir (name f))) s2
                             in case relative_to dest_dir folder of
                                  Inl e \<Rightarrow> (s3, Raised e)
                                | Inr rel \<Rightarrow>
                                    (s3, Completed (''Moved: '' @ name f @ '' ''
                                           @ rightwards_arrow @ '' '' @ str_path rel)))))))"

text \<open>
  Lines 101 to 139: the body of the \<^verbatim>\<open>try\<close>. An exception of the callback at line 123 is
  raised inside the \<^verbatim>\<open>try\<close>, after the log line of the duplicate was appended.
\<close>

definition try_body ::
  "lib \<Rightarrow> path \<Rightarrow> string \<Rightarrow> bool \<Rightarrow> callback option \<Rightarrow> nat \<Rightarrow> nat \<Rightarrow> file_entry \<Rightarrow> state
     \<Rightarrow> state \<times> outcome" where
  "try_body l folder organize_mode check_duplicates progress_callback total_n i f s =
     (case st_size f of
        Inl e \<Rightarrow> (s, Raised e)
      | Inr sz \<Rightarrow>
          (let s1 = add_size sz s
           in if check_duplicates then
                (case calculate_hash l f of
                   None \<Rightarrow>
                     organization_logic l folder organize_mode f
                       (''Warning: Could not read hash for '' @ name f
                          @ ''. Skipping duplicate check.'') s1
                 | Some file_hash \<Rightarrow>
                     if dict_contains (seen_hashes s1) file_hash then
                       (let s2 = count_duplicate sz s1;
                            duplicate_dir = join_path folder ''Duplicates (Removed)''
                        in case mkdir_error f of
                             Some e \<Rightarrow> (s2, Raised e)
                           | None \<Rightarrow>
                               (let s3 = perform (Mkdir duplicate_dir False) s2 in
                                case move_error f of
                                  Some e \<Rightarrow> (s3, Raised e)
                                | None \<Rightarrow>
                                    (let s4 = perform (Move (join_path folder (name f))
                                                 (join_path duplicate_dir (name f))) s3;
                                         log_entry = ''DUPLICATE REMOVED: '' @ name f
                                                       @ '' -> Duplicates''
                                     in case call_progress progress_callback
                                               (percent i total_n) log_entry
                                               (append_log log_entry s4) of
                                          (s5, Some e) \<Rightarrow> (s5, Raised e)
                                        | (s5, None) \<Rightarrow> (s5, Continued))))
                     else
                       organization_logic l folder organize_mode f []
                         (remember_hash file_hash (name f) s1))
              else organization_logic l folder organize_mode f [] s1))"

text \<open>
  Lines 143 to 147: the log line and the progress event of a file that was not a duplicate.
  The callback is called outside the \<^verbatim>\<open>try\<close>: an exception that it raises leaves the loop.
\<close>

definition report_progress ::
  "callback option \<Rightarrow> nat \<Rightarrow> nat \<Rightarrow> file_entry \<Rightarrow> string \<Rightarrow> state \<Rightarrow> state \<times> error option" where
  "report_progress progress_callback total_n i f log_entry s =
     (let s1 = append_log log_entry s in
      if progress_callback \<noteq> None \<and> total_n \<noteq> 0
      then call_progress progress_callback (percent i total_n)
             (''Processing '' @ name f @ '' ('' @ str_nat i @ ''/'' @ str_nat total_n @ '')'') s1
      else (s1, None))"

text \<open>
  One iteration of the loop, for the \<open>i\<close>-th file of \<open>total_n\<close> (\<^verbatim>\<open>total\<close> in the source): the
  state at its end, and the exception that left it, if any.
\<close>

definition process_file ::
  "lib \<Rightarrow> path \<Rightarrow> string \<Rightarrow> bool \<Rightarrow> callback option \<Rightarrow> nat \<Rightarrow> nat \<Rightarrow> file_entry \<Rightarrow> state
     \<Rightarrow> state \<times> error option" where
  "process_file l folder organize_mode check_duplicates progress_callback total_n i f s =
     (case try_body l folder organize_mode check_duplicates progress_callback total_n i f s of
        (s', Continued) \<Rightarrow> (s', None)
      | (s', Completed log_entry) \<Rightarrow> report_progress progress_callback total_n i f log_entry s'
      | (s', Raised e) \<Rightarrow>
          report_progress progress_callback total_n i f
            (''ERROR moving '' @ name f @ '': '' @ str_error e) s')"

text \<open>The loop: it ends after the last file, or with the first exception that leaves an iteration.\<close>

fun organize_loop ::
  "lib \<Rightarrow> path \<Rightarrow> string \<Rightarrow> bool \<Rightarrow> callback option \<Rightarrow> nat \<Rightarrow> nat \<Rightarrow> file_entry list \<Rightarrow> state
     \<Rightarrow> state \<times> error option" where
  "organize_loop l folder organize_mode check_duplicates progress_callback total_n i [] s =
     (s, None)"
| "organize_loop l folder organize_mode check_duplicates progress_callback total_n i (f # fs) s =
     (case process_file l folder organize_mode check_duplicates progress_callback total_n i f s of
        (s', Some e) \<Rightarrow> (s', Some e)
      | (s', None) \<Rightarrow>
          organize_loop l folder organize_mode check_duplicates progress_callback total_n
            (Suc i) fs s')"

text \<open>The files that the run organizes, of the entries of the folder.\<close>

definition eligible :: "file_entry list \<Rightarrow> file_entry list" where
  "eligible entries =
     filter (\<lambda>f. is_file f \<and> name f \<notin> set [''app.py'', ''organizer.py'']) entries"

definition initial_state :: "nat \<Rightarrow> state" where
  "initial_state total_n =
     \<lparr>analytics = \<lparr>total_files = total_n, total_size_bytes = 0, categories = [],
                   time_taken_sec = 0, duplicates_removed = 0, space_saved_bytes = 0,
                   logs = []\<rparr>,
      seen_hashes = [], duplicate_files = 0, saved_bytes = 0,
      progress_events = [], fs_ops = []\<rparr>"

text \<open>What a call returns (\<open>returned_logs\<close>, \<open>returned_analytics\<close>) and what it did.\<close>

record result =
  returned_logs :: "string list"
  returned_analytics :: analytics
  emitted :: "(int \<times> string) list"
  performed :: "fs_op list"

text \<open>
  \<open>iterdir\<close> is the outcome of \<^verbatim>\<open>folder.iterdir()\<close>: the entries of the folder in the order
  of the enumeration, or the exception, which leaves the function. The result is what the
  call returns, or the exception that leaves it: that of the enumeration, or one that the
  progress callback raised outside the \<^verbatim>\<open>try\<close> (lines 95, 147 and 155).
\<close>

definition organize_files ::
  "lib \<Rightarrow> path \<Rightarrow> string \<Rightarrow> bool \<Rightarrow> callback option \<Rightarrow> error + file_entry list
     \<Rightarrow> error + result" where
  "organize_files l folder organize_mode check_duplicates progress_callback iterdir =
     (case iterdir of
        Inl e \<Rightarrow> Inl e
      | Inr entries \<Rightarrow>
          (let files = eligible entries;
               total_n = length files;
               s0 = initial_state total_n
           in if total_n = 0 then
                (let a = (analytics s0)\<lparr>time_taken_sec := round3 (time_end l - time_start l)\<rparr>
                 in case call_progress progress_callback 100 ''No files to organize'' s0 of
                      (s1, Some e) \<Rightarrow> Inl e
                    | (s1, None) \<Rightarrow>
                        Inr \<lparr>returned_logs = [], returned_analytics = a,
                             emitted = progress_events s1, performed = fs_ops s1\<rparr>)
              else
                (case organize_loop l folder organize_mode check_duplicates
                        progress_callback total_n 1 files s0 of
                   (s1, Some e) \<Rightarrow> Inl e
                 | (s1, None) \<Rightarrow>
                     (let a = (analytics s1)
                                \<lparr>time_taken_sec := round3 (time_end l - time_start l),
                                 duplicates_removed := duplicate_files s1,
                                 space_saved_bytes := saved_bytes s1\<rparr>
                      in case call_progress progress_callback 100
                                (''Completed '' @ em_dash @ '' '' @ str_nat (total_files a)
                                   @ '' files organized.'') s1 of
                           (s2, Some e) \<Rightarrow> Inl e
                         | (s2, None) \<Rightarrow>
                             Inr \<lparr>returned_logs = logs a, returned_analytics = a,
                                  emitted = progress_events s2, performed = fs_ops s2\<rparr>))))"

text \<open>The counter of a category in the report; a category that has no entry counts 0.\<close>

definition category_count :: "analytics \<Rightarrow> string \<Rightarrow> nat" where
  "category_count a category = (case map_of (categories a) category of None \<Rightarrow> 0 | Some n \<Rightarrow> n)"

section \<open>Example inputs\<close>

text \<open>
  A library for the examples: the MD5 digests of the two contents they use, \<^verbatim>\<open>str.lower\<close> on
  ASCII letters and on the Kelvin sign (U+212A, whose lower case is \<^verbatim>\<open>k\<close>), a few entries of
  the MIME table and a string that \<^verbatim>\<open>mimetypes.guess_type\<close> rejects, a clock, and a time zone in
  which the timestamp 1721037600 falls on 2024-07-15 and -31015353600 on 0987-03-01;
  \<^verbatim>\<open>datetime.fromtimestamp\<close> rejects the timestamp \<open>10^20\<close>.
\<close>

definition example_md5 :: "string \<Rightarrow> string" where
  "example_md5 b =
     (if b = ''hello'' then ''5d41402abc4b2a76b9719d911017c592''
      else if b = [] then ''d41d8cd98f00b204e9800998ecf8427e''
      else ''00000000000000000000000000000000'')"

definition kelvin_sign :: string where
  "kelvin_sign = [CHR 0xE2, CHR 0x84, CHR 0xAA]"

fun example_lower :: "string \<Rightarrow> string" where
  "example_lower (a # b # c # cs) =
     (if [a, b, c] = kelvin_sign then CHR ''k'' # example_lower cs
      else lower_char a # example_lower (b # c # cs))"
| "example_lower (a # cs) = lower_char a # example_lower cs"
| "example_lower [] = []"

definition example_guess_type :: "string \<Rightarrow> error + string option" where
  "example_guess_type url =
     (if url = ''file.x://['' then Inl (ValueError ''Invalid IPv6 URL'')
      else Inr (map_of [(''file.webp'', ''image/webp''), (''file.ogg'', ''audio/ogg''),
                        (''file.webm'', ''video/webm''), (''file.json'', ''application/json'')]
                  url))"

definition example_fromtimestamp :: "rat \<Rightarrow> error + datetime" where
  "example_fromtimestamp t =
     (if t = 1721037600 then Inr \<lparr>year = 2024, month = 7, day = 15\<rparr>
      else if t = - 31015353600 then Inr \<lparr>year = 987, month = 3, day = 1\<rparr>
      else if t = 100000000000000000000
      then Inl (OverflowError ''timestamp out of range for platform time_t'')
      else Inr \<lparr>year = 1970, month = 1, day = 1\<rparr>)"

definition example_lib :: lib where
  "example_lib =
     \<lparr>md5 = example_md5, str_lower = example_lower, guess_type = example_guess_type,
      fromtimestamp = example_fromtimestamp, time_start = 1000, time_end = 1000 + 1 / 4\<rparr>"

text \<open>Two callbacks: one that returns at every call, and one that raises at every call.\<close>

definition quiet_callback :: callback where
  "quiet_callback calls = None"

definition failing_callback :: callback where
  "failing_callback calls = Some (RuntimeError ''progress bar closed'')"

definition example_folder :: path where
  "example_folder = [''home'', ''user'', ''Downloads'']"

text \<open>A readable text file, a copy of it under another name, and a picture.\<close>

definition report_txt :: file_entry where
  "report_txt =
     \<lparr>name = ''report.txt'', suffix = ''.txt'', is_file = True, st_size = Inr 5,
      st_mtime = Inr 1721037600, content = ''hello'', read_error = None,
      mkdir_error = None, move_error = None\<rparr>"

definition copy_txt :: file_entry where
  "copy_txt = report_txt\<lparr>name := ''copy.txt''\<rparr>"

definition photo_png :: file_entry where
  "photo_png =
     \<lparr>name = ''photo.PNG'', suffix = ''.PNG'', is_file = True, st_size = Inr 0,
      st_mtime = Inr 1721037600, content = [], read_error = None,
      mkdir_error = None, move_error = None\<rparr>"

text \<open>Two entries that a run leaves alone: the tool's own script and a subfolder.\<close>

definition app_py :: file_entry where
  "app_py =
     \<lparr>name = ''app.py'', suffix = ''.py'', is_file = True, st_size = Inr 120,
      st_mtime = Inr 1721037600, content = ''hello'', read_error = None,
      mkdir_error = None, move_error = None\<rparr>"

definition subfolder :: file_entry where
  "subfolder =
     \<lparr>name = ''Documents'', suffix = [], is_file = False, st_size = Inr 4096,
      st_mtime = Inr 1721037600, content = [], read_error = Some (OSError ''Is a directory''),
      mkdir_error = None, move_error = None\<rparr>"

text \<open>
  Files on which an operation fails: one that disappears before it is processed, copies of
  the text file that cannot be read, and copies that cannot be moved.
\<close>

definition vanished_bin :: file_entry where
  "vanished_bin =
     \<lparr>name = ''data.bin'', suffix = ''.bin'', is_file = True,
      st_size = Inl (OSError ''[Errno 2] No such file or directory''),
      st_mtime = Inl (OSError ''[Errno 2] No such file or directory''), content = [],
      read_error = Some (OSError ''[Errno 2] No such file or directory''),
      mkdir_error = None, move_error = Some (OSError ''[Errno 2] No such file or directory'')\<rparr>"

definition locked_txt :: file_entry where
  "locked_txt =
     report_txt\<lparr>name := ''notes.txt'', read_error := Some (OSError ''[Errno 13] Permission denied'')\<rparr>"

definition locked_copy_txt :: file_entry where
  "locked_copy_txt = locked_txt\<lparr>name := ''notes-copy.txt''\<rparr>"

definition stuck_txt :: file_entry where
  "stuck_txt =
     report_txt\<lparr>name := ''stuck.txt'', move_error := Some (OSError ''[Errno 13] Permission denied'')\<rparr>"

definition stuck_copy_txt :: file_entry where
  "stuck_copy_txt =
     copy_txt\<lparr>move_error := Some (OSError ''[Errno 13] Permission denied'')\<rparr>"

definition locked_stuck_txt :: file_entry where
  "locked_stuck_txt =
     locked_txt\<lparr>move_error := Some (OSError ''[Errno 13] Permission denied'')\<rparr>"

section \<open>Properties of the categorizer\<close>

lemma find_category_owner:
  "(cat, exts) \<in> set FILE_CATEGORIES \<Longrightarrow> e \<in> set exts \<Longrightarrow> find_category FILE_CATEGORIES e = Some cat"
  unfolding FILE_CATEGORIES_def by (elim disjE | simp)+

lemma find_category_None:
  "e \<notin> \<Union> (set ` snd ` set FILE_CATEGORIES) \<Longrightarrow> find_category FILE_CATEGORIES e = None"
  unfolding FILE_CATEGORIES_def by simp

text \<open>
  C4 (as amended). An extension whose lower-case form is listed in the static table gets the
  category that lists it, and \<^verbatim>\<open>guess_type\<close> is not consulted. For any other extension the
  result is that of the MIME lookup of \<^verbatim>\<open>"file" + ext\<close>: \<open>Images\<close>, \<open>Videos\<close> or \<open>Audios\<close> when
  the guessed type has the top-level type \<open>image\<close>, \<open>video\<close> or \<open>audio\<close>, \<open>Others\<close> when nothing
  is guessed or the top-level type is another one, and the exception of the lookup when it
  raises.
\<close>

theorem get_category_spec:
  "(\<forall>cat exts. (cat, exts) \<in> set FILE_CATEGORIES \<longrightarrow> str_lower l ext \<in> set exts \<longrightarrow>
       get_category l ext = Inr cat)
   \<and> (str_lower l ext \<notin> \<Union> (set ` snd ` set FILE_CATEGORIES) \<longrightarrow>
        get_category l ext =
          (case guess_type l (''file'' @ str_lower l ext) of
             Inl e \<Rightarrow> Inl e
           | Inr None \<Rightarrow> Inr ''Others''
           | Inr (Some mime) \<Rightarrow>
               Inr (if main_type_of mime = ''image'' then ''Images''
                    else if main_type_of mime = ''video'' then ''Videos''
                    else if main_type_of mime = ''audio'' then ''Audios''
                    else ''Others'')))"
proof (intro conjI allI impI)
  fix cat exts
  assume "(cat, exts) \<in> set FILE_CATEGORIES" "str_lower l ext \<in> set exts"
  then show "get_category l ext = Inr cat"
    by (simp add: get_category_def find_category_owner)
next
  assume "str_lower l ext \<notin> \<Union> (set ` snd ` set FILE_CATEGORIES)"
  then have "find_category FILE_CATEGORIES (str_lower l ext) = None"
    by (rule find_category_None)
  then show "get_category l ext =
          (case guess_type l (''file'' @ str_lower l ext) of
             Inl e \<Rightarrow> Inl e
           | Inr None \<Rightarrow> Inr ''Others''
           | Inr (Some mime) \<Rightarrow>
               Inr (if main_type_of mime = ''image'' then ''Images''
                    else if main_type_of mime = ''video'' then ''Videos''
                    else if main_type_of mime = ''audio'' then ''Audios''
                    else ''Others''))"
    by (auto simp: get_category_def Let_def main_type_of_def upper_char_def lower_char_def
        ascii_uppercase_def ascii_lowercase_def split: option.splits sum.splits)
qed

lemma lower_examples:
  "str_lower example_lib ''.PNG'' = ''.png''" "str_lower example_lib ''.ogg'' = ''.ogg''"
  "str_lower example_lib ''.xyz'' = ''.xyz''"
  "str_lower example_lib (''.M'' @ kelvin_sign @ ''V'') = ''.mkv''"
  "str_lower example_lib ''.x://['' = ''.x://[''"
  by code_simp+

theorem get_category_spec_witness:
  "(''Images'', [''.jpg'', ''.jpeg'', ''.png'', ''.gif'', ''.bmp'', ''.svg'']) \<in> set FILE_CATEGORIES
   \<and> str_lower example_lib ''.PNG'' \<in> set [''.jpg'', ''.jpeg'', ''.png'', ''.gif'', ''.bmp'', ''.svg'']
   \<and> get_category example_lib ''.PNG'' = Inr ''Images''
   \<and> (''Videos'', [''.mp4'', ''.mkv'', ''.avi'', ''.mov'']) \<in> set FILE_CATEGORIES
   \<and> str_lower example_lib (''.M'' @ kelvin_sign @ ''V'') \<in> set [''.mp4'', ''.mkv'', ''.avi'', ''.mov'']
   \<and> get_category example_lib (''.M'' @ kelvin_sign @ ''V'') = Inr ''Videos''
   \<and> str_lower example_lib ''.ogg'' \<notin> \<Union> (set ` snd ` set FILE_CATEGORIES)
   \<and> get_category example_lib ''.ogg'' = Inr ''Audios''
   \<and> str_lower example_lib ''.xyz'' \<notin> \<Union> (set ` snd ` set FILE_CATEGORIES)
   \<and> get_category example_lib ''.xyz'' = Inr ''Others''"
proof -
  have images: "(''Images'', [''.jpg'', ''.jpeg'', ''.png'', ''.gif'', ''.bmp'', ''.svg''])
      \<in> set FILE_CATEGORIES"
    by (simp add: FILE_CATEGORIES_def)
  have png: "str_lower example_lib ''.PNG''
      \<in> set [''.jpg'', ''.jpeg'', ''.png'', ''.gif'', ''.bmp'', ''.svg'']"
    by (simp add: lower_examples)
  have videos: "(''Videos'', [''.mp4'', ''.mkv'', ''.avi'', ''.mov'']) \<in> set FILE_CATEGORIES"
    by (simp add: FILE_CATEGORIES_def)
  have mkv: "str_lower example_lib (''.M'' @ kelvin_sign @ ''V'')
      \<in> set [''.mp4'', ''.mkv'', ''.avi'', ''.mov'']"
    unfolding lower_examples by simp
  have ogg: "str_lower example_lib ''.ogg'' \<notin> \<Union> (set ` snd ` set FILE_CATEGORIES)"
    by (simp add: lower_examples FILE_CATEGORIES_def)
  have xyz: "str_lower example_lib ''.xyz'' \<notin> \<Union> (set ` snd ` set FILE_CATEGORIES)"
    by (simp add: lower_examples FILE_CATEGORIES_def)
  have guesses: "guess_type example_lib ''file.ogg'' = Inr (Some ''audio/ogg'')"
    "guess_type example_lib ''file.xyz'' = Inr None"
    "main_type_of ''audio/ogg'' = ''audio''"
    by code_simp+
  note listed = get_category_spec [THEN conjunct1, rule_format]
  note unlisted = get_category_spec [THEN conjunct2, rule_format]
  from listed [OF images png]
  have png_cat: "get_category example_lib ''.PNG'' = Inr ''Images''" .
  from listed [OF videos mkv]
  have mkv_cat: "get_category example_lib (''.M'' @ kelvin_sign @ ''V'') = Inr ''Videos''" .
  from unlisted [OF ogg]
  have ogg_cat: "get_category example_lib ''.ogg'' = Inr ''Audios''"
    by (simp add: lower_examples guesses)
  from unlisted [OF xyz]
  have xyz_cat: "get_category example_lib ''.xyz'' = Inr ''Others''"
    by (simp add: lower_examples guesses)
  show ?thesis
    by (intro conjI) (fact images png png_cat videos mkv mkv_cat ogg ogg_cat xyz xyz_cat)+
qed

text \<open>
  The claim as stated says that the function never raises. \<^verbatim>\<open>mimetypes.guess_type\<close> raises
  \<^verbatim>\<open>ValueError\<close> on \<^verbatim>\<open>"file.x://["\<close>, and the function does not catch it.
\<close>

theorem get_category_raises:
  "guess_type example_lib (''file'' @ str_lower example_lib ''.x://['')
     = Inl (ValueError ''Invalid IPv6 URL'')
   \<and> get_category example_lib ''.x://['' = Inl (ValueError ''Invalid IPv6 URL'')"
  by code_simp

section \<open>Properties of the path resolver\<close>

lemma length_str_nat_1: "n < 10 \<Longrightarrow> length (str_nat n) = 1"
  by (subst str_nat.simps) simp

lemma length_str_nat_2: "10 \<le> n \<Longrightarrow> n < 100 \<Longrightarrow> length (str_nat n) = 2"
  by (subst str_nat.simps) (simp add: length_str_nat_1)

lemma length_str_nat_3: "100 \<le> n \<Longrightarrow> n < 1000 \<Longrightarrow> length (str_nat n) = 3"
  by (subst str_nat.simps) (simp add: length_str_nat_2)

lemma length_str_nat_4: "1000 \<le> n \<Longrightarrow> n < 10000 \<Longrightarrow> length (str_nat n) = 4"
  by (subst str_nat.simps) (simp add: length_str_nat_3)

lemma length_str_nat_mono: "m \<le> n \<Longrightarrow> length (str_nat m) \<le> length (str_nat n)"
proof (induction n arbitrary: m rule: str_nat.induct)
  case (1 n)
  show ?case
  proof (cases "n < 10")
    case True
    with "1.prems" show ?thesis
      by (simp add: length_str_nat_1)
  next
    case False
    show ?thesis
    proof (cases "m < 10")
      case True
      with False show ?thesis
        by (subst (2) str_nat.simps) (simp add: length_str_nat_1)
    next
      case m: False
      from "1.prems" have "m div 10 \<le> n div 10"
        by (rule div_le_mono)
      from "1.IH" [OF False this] False m show ?thesis
        by (subst str_nat.simps, subst (2) str_nat.simps) simp
    qed
  qed
qed

lemma length_str_nat_5: "10000 \<le> n \<Longrightarrow> 5 \<le> length (str_nat n)"
proof -
  assume n: "10000 \<le> n"
  then have "1000 \<le> n div 10"
    by simp
  then have "length (str_nat 1000) \<le> length (str_nat (n div 10))"
    by (rule length_str_nat_mono)
  then have "4 \<le> length (str_nat (n div 10))"
    by (simp add: length_str_nat_4)
  with n show ?thesis
    by (subst str_nat.simps) simp
qed

lemma length_year: "length (str_nat y) = 4 \<longleftrightarrow> 1000 \<le> y \<and> y \<le> 9999"
proof -
  consider "y < 10" | "10 \<le> y" "y < 100" | "100 \<le> y" "y < 1000" | "1000 \<le> y" "y < 10000"
    | "10000 \<le> y"
    by linarith
  then show ?thesis
  proof cases
    case 5
    with length_str_nat_5 [of y] show ?thesis by simp
  qed (simp_all add: length_str_nat_1 length_str_nat_2 length_str_nat_3 length_str_nat_4)
qed

lemma length_month: "1 \<le> m \<Longrightarrow> m \<le> 12 \<Longrightarrow> length (zero_pad 2 (str_nat m)) = 2"
  by (cases "m < 10") (simp_all add: zero_pad_def length_str_nat_1 length_str_nat_2)

text \<open>
  C5 (as amended). In mode \<open>Category Only\<close> the destination is \<open>folder/category\<close>, for every
  file. In every other mode the function first reads the modification time of the file
  and converts it to a local date: an exception of \<^verbatim>\<open>file.stat()\<close> or of
  \<^verbatim>\<open>datetime.fromtimestamp\<close> leaves the function, whatever the mode string. When both
  succeed, the destination is \<open>folder/category/<year>\<close> in mode \<open>Category / Year\<close>,
  \<open>folder/category/<year>-<month>\<close> in mode \<open>Category / Year-Month\<close>, and \<open>folder/category\<close>
  for any other mode string. The year is written in decimal, which is four digits exactly
  for the years 1000 to 9999; the month is written on two digits.
\<close>

theorem get_destination_path_spec:
  "(organize_mode = ''Category Only'' \<longrightarrow>
      get_destination_path l folder f category organize_mode = Inr (folder @ [category]))
   \<and> (organize_mode \<noteq> ''Category Only'' \<longrightarrow>
        (\<forall>e. st_mtime f = Inl e \<longrightarrow>
           get_destination_path l folder f category organize_mode = Inl e)
      \<and> (\<forall>t. st_mtime f = Inr t \<longrightarrow>
           (\<forall>e. fromtimestamp l t = Inl e \<longrightarrow>
              get_destination_path l folder f category organize_mode = Inl e)
         \<and> (\<forall>dt. fromtimestamp l t = Inr dt \<longrightarrow>
              (organize_mode = ''Category / Year'' \<longrightarrow>
                 get_destination_path l folder f category organize_mode =
                   Inr (folder @ [category, str_nat (year dt)]))
            \<and> (organize_mode = ''Category / Year-Month'' \<longrightarrow>
                 get_destination_path l folder f category organize_mode =
                   Inr (folder @ [category,
                          str_nat (year dt) @ ''-'' @ zero_pad 2 (str_nat (month dt))]))
            \<and> (organize_mode \<notin> {''Category / Year'', ''Category / Year-Month''} \<longrightarrow>
                 get_destination_path l folder f category organize_mode =
                   Inr (folder @ [category]))
            \<and> (length (str_nat (year dt)) = 4 \<longleftrightarrow> 1000 \<le> year dt \<and> year dt \<le> 9999)
            \<and> (1 \<le> month dt \<and> month dt \<le> 12 \<longrightarrow>
                 length (zero_pad 2 (str_nat (month dt))) = 2))))"
proof (intro conjI allI impI)
  show "length (str_nat (year dt)) = 4 \<longleftrightarrow> 1000 \<le> year dt \<and> year dt \<le> 9999"
    for dt :: datetime
    by (rule length_year)
  show "1 \<le> month dt \<and> month dt \<le> 12 \<Longrightarrow> length (zero_pad 2 (str_nat (month dt))) = 2"
    for dt :: datetime
    by (simp add: length_month)
qed (simp_all add: get_destination_path_def join_path_def Let_def strftime_Y_m_def strftime_Y_def)

lemma example_dates:
  "fromtimestamp example_lib 1721037600 = Inr \<lparr>year = 2024, month = 7, day = 15\<rparr>"
  "fromtimestamp example_lib (- 31015353600) = Inr \<lparr>year = 987, month = 3, day = 1\<rparr>"
  "fromtimestamp example_lib 100000000000000000000
     = Inl (OverflowError ''timestamp out of range for platform time_t'')"
  by (simp_all add: example_lib_def example_fromtimestamp_def)

lemma str_nat_examples:
  "str_nat 2024 = ''2024''" "str_nat 7 = ''7''" "str_nat 987 = ''987''" "str_nat 3 = ''3''"
  by code_simp+

theorem get_destination_path_spec_witness:
  "st_mtime photo_png = Inr 1721037600
   \<and> fromtimestamp example_lib 1721037600 = Inr \<lparr>year = 2024, month = 7, day = 15\<rparr>
   \<and> get_destination_path example_lib example_folder photo_png ''Images'' ''Category Only''
       = Inr [''home'', ''user'', ''Downloads'', ''Images'']
   \<and> get_destination_path example_lib example_folder photo_png ''Images'' ''Category / Year''
       = Inr [''home'', ''user'', ''Downloads'', ''Images'', ''2024'']
   \<and> get_destination_path example_lib example_folder photo_png ''Images'' ''Category / Year-Month''
       = Inr [''home'', ''user'', ''Downloads'', ''Images'', ''2024-07'']
   \<and> get_destination_path example_lib example_folder photo_png ''Images'' ''By Size''
       = Inr [''home'', ''user'', ''Downloads'', ''Images'']
   \<and> length (str_nat (year \<lparr>year = 2024, month = 7, day = 15\<rparr>)) = 4
   \<and> length (zero_pad 2 (str_nat (month \<lparr>year = 2024, month = 7, day = 15\<rparr>))) = 2
   \<and> st_mtime vanished_bin = Inl (OSError ''[Errno 2] No such file or directory'')
   \<and> get_destination_path example_lib example_folder vanished_bin ''Others'' ''Category / Year''
       = Inl (OSError ''[Errno 2] No such file or directory'')
   \<and> get_destination_path example_lib example_folder vanished_bin ''Others'' ''Category Only''
       = Inr [''home'', ''user'', ''Downloads'', ''Others'']"
proof -
  let ?dt = "\<lparr>year = 2024, month = 7, day = 15\<rparr>"
  let ?e = "OSError ''[Errno 2] No such file or directory''"
  have mtime: "st_mtime photo_png = Inr 1721037600"
    by (simp add: photo_png_def)
  have date: "fromtimestamp example_lib 1721037600 = Inr ?dt"
    by (rule example_dates)
  have gone: "st_mtime vanished_bin = Inl ?e"
    by (simp add: vanished_bin_def)
  have modes: "''Category / Year'' \<noteq> ''Category Only''"
    "''Category / Year-Month'' \<noteq> ''Category Only''" "''By Size'' \<noteq> ''Category Only''"
    "''By Size'' \<notin> {''Category / Year'', ''Category / Year-Month''}"
    by simp_all
  note only = get_destination_path_spec [THEN conjunct1, rule_format, OF refl]
  note other = get_destination_path_spec [THEN conjunct2, rule_format]
  note dated = other [THEN conjunct2, rule_format, OF _ mtime, THEN conjunct2, rule_format,
      OF _ date]
  have 1: "get_destination_path example_lib example_folder photo_png ''Images'' ''Category Only''
       = Inr [''home'', ''user'', ''Downloads'', ''Images'']"
    using only [of example_lib example_folder photo_png "''Images''"]
    by (simp add: example_folder_def)
  have 2: "get_destination_path example_lib example_folder photo_png ''Images'' ''Category / Year''
       = Inr [''home'', ''user'', ''Downloads'', ''Images'', ''2024'']"
    using dated [OF modes(1), THEN conjunct1, rule_format, OF refl,
        of example_folder "''Images''"]
    by (simp add: example_folder_def str_nat_examples)
  have 3: "get_destination_path example_lib example_folder photo_png ''Images''
         ''Category / Year-Month''
       = Inr [''home'', ''user'', ''Downloads'', ''Images'', ''2024-07'']"
    using dated [OF modes(2), THEN conjunct2, THEN conjunct1, rule_format, OF refl,
        of example_folder "''Images''"]
    by (simp add: example_folder_def str_nat_examples zero_pad_def)
  have 4: "get_destination_path example_lib example_folder photo_png ''Images'' ''By Size''
       = Inr [''home'', ''user'', ''Downloads'', ''Images'']"
    using dated [OF modes(3), THEN conjunct2, THEN conjunct2, THEN conjunct1, rule_format,
        OF modes(4), of example_folder "''Images''"]
    by (simp add: example_folder_def)
  have 5: "length (str_nat (year ?dt)) = 4"
    using dated [OF modes(1), THEN conjunct2, THEN conjunct2, THEN conjunct2, THEN conjunct1]
    by simp
  have 6: "length (zero_pad 2 (str_nat (month ?dt))) = 2"
    using dated [OF modes(1), THEN conjunct2, THEN conjunct2, THEN conjunct2, THEN conjunct2]
    by simp
  have 7: "get_destination_path example_lib example_folder vanished_bin ''Others''
         ''Category / Year'' = Inl ?e"
    using other [THEN conjunct1, rule_format, OF modes(1) gone] .
  have 8: "get_destination_path example_lib example_folder vanished_bin ''Others''
         ''Category Only'' = Inr [''home'', ''user'', ''Downloads'', ''Others'']"
    using only [of example_lib example_folder vanished_bin "''Others''"]
    by (simp add: example_folder_def)
  show ?thesis
    by (intro conjI) (fact mtime date gone 1 2 3 4 5 6 7 8)+
qed

text \<open>
  The claim as stated fails in two ways. A mode string other than \<open>Category Only\<close> makes the
  function read the modification time first: for a file that \<^verbatim>\<open>stat\<close> cannot find, an
  unknown mode raises instead of falling back to \<open>folder/category\<close>. And the year segment
  of a file last modified in the year 987 has three digits.
\<close>

theorem get_destination_path_raises_without_mtime:
  "get_destination_path example_lib example_folder vanished_bin ''Others'' ''By Size''
     = Inl (OSError ''[Errno 2] No such file or directory'')
   \<and> get_destination_path example_lib example_folder
        (photo_png\<lparr>st_mtime := Inr (- 31015353600)\<rparr>) ''Images'' ''Category / Year''
     = Inr [''home'', ''user'', ''Downloads'', ''Images'', ''987'']"
  by code_simp

section \<open>Properties of the orchestrator\<close>

text \<open>
  C6 (as amended). When no entry of the folder is eligible, nothing is moved. Without a
  callback the call emits nothing and returns an empty log and a report whose counters are
  zero, whose category dictionary is empty and whose elapsed time is the rounded difference
  of the two clock readings. With a callback it makes exactly one call,
  \<open>(100, "No files to organize")\<close>, and returns the same log and report when that call
  returns; an exception of that call leaves the function.
\<close>

theorem organize_files_empty:
  "eligible entries = [] \<Longrightarrow>
   organize_files l folder organize_mode check_duplicates progress_callback (Inr entries) =
     (case progress_callback of
        None \<Rightarrow>
          Inr \<lparr>returned_logs = [],
               returned_analytics =
                 \<lparr>total_files = 0, total_size_bytes = 0, categories = [],
                  time_taken_sec = round3 (time_end l - time_start l),
                  duplicates_removed = 0, space_saved_bytes = 0, logs = []\<rparr>,
               emitted = [], performed = []\<rparr>
      | Some c \<Rightarrow>
          (case c [(100, ''No files to organize'')] of
             None \<Rightarrow>
               Inr \<lparr>returned_logs = [],
                    returned_analytics =
                      \<lparr>total_files = 0, total_size_bytes = 0, categories = [],
                       time_taken_sec = round3 (time_end l - time_start l),
                       duplicates_removed = 0, space_saved_bytes = 0, logs = []\<rparr>,
                    emitted = [(100, ''No files to organize'')], performed = []\<rparr>
           | Some e \<Rightarrow> Inl e))"
  by (simp add: organize_files_def initial_state_def call_progress_def split: option.splits)

lemma round3_example: "round3 (1 / 4) = 1 / 4"
  by (simp add: round3_def round_half_even_def)

lemma eligible_examples: "eligible [app_py, subfolder] = []"
  by (simp add: eligible_def app_py_def subfolder_def)

theorem organize_files_empty_witness:
  "eligible [app_py, subfolder] = []
   \<and> organize_files example_lib example_folder ''Category / Year'' True (Some quiet_callback)
         (Inr [app_py, subfolder]) =
       Inr \<lparr>returned_logs = [],
            returned_analytics =
              \<lparr>total_files = 0, total_size_bytes = 0, categories = [],
               time_taken_sec = 1 / 4, duplicates_removed = 0, space_saved_bytes = 0,
               logs = []\<rparr>,
            emitted = [(100, ''No files to organize'')],
            performed = []\<rparr>
   \<and> organize_files example_lib example_folder ''Category / Year'' True (Some failing_callback)
         (Inr [app_py, subfolder]) = Inl (RuntimeError ''progress bar closed'')"
  using organize_files_empty [OF eligible_examples, of example_lib example_folder
      "''Category / Year''" True "Some quiet_callback"]
    organize_files_empty [OF eligible_examples, of example_lib example_folder
      "''Category / Year''" True "Some failing_callback"]
  by (simp add: eligible_examples example_lib_def round3_example quiet_callback_def
      failing_callback_def)

text \<open>
  The claim as stated fails for a call without a callback: on an empty folder it emits no
  progress event at all.
\<close>

theorem organize_files_empty_without_callback:
  "organize_files example_lib example_folder ''Category Only'' True None (Inr []) =
     Inr \<lparr>returned_logs = [],
          returned_analytics =
            \<lparr>total_files = 0, total_size_bytes = 0, categories = [],
             time_taken_sec = 1 / 4, duplicates_removed = 0, space_saved_bytes = 0,
             logs = []\<rparr>,
          emitted = [],
          performed = []\<rparr>"
  by (simp add: organize_files_def eligible_def initial_state_def call_progress_def
      example_lib_def round3_example)

text \<open>What each update does to each variable of the loop.\<close>

lemma append_log_simps [simp]:
  "analytics (append_log x s) = (analytics s)\<lparr>logs := logs (analytics s) @ [x]\<rparr>"
  "seen_hashes (append_log x s) = seen_hashes s"
  "duplicate_files (append_log x s) = duplicate_files s"
  "saved_bytes (append_log x s) = saved_bytes s"
  "progress_events (append_log x s) = progress_events s"
  "fs_ops (append_log x s) = fs_ops s"
  by (simp_all add: append_log_def)

lemma perform_simps [simp]:
  "analytics (perform op s) = analytics s"
  "seen_hashes (perform op s) = seen_hashes s"
  "duplicate_files (perform op s) = duplicate_files s"
  "saved_bytes (perform op s) = saved_bytes s"
  "progress_events (perform op s) = progress_events s"
  "fs_ops (perform op s) = fs_ops s @ [op]"
  by (simp_all add: perform_def)

lemma call_progress_simps [simp]:
  "analytics (fst (call_progress cb p m s)) = analytics s"
  "seen_hashes (fst (call_progress cb p m s)) = seen_hashes s"
  "duplicate_files (fst (call_progress cb p m s)) = duplicate_files s"
  "saved_bytes (fst (call_progress cb p m s)) = saved_bytes s"
  "progress_events (fst (call_progress cb p m s)) =
     progress_events s @ (if cb = None then [] else [(p, m)])"
  "fs_ops (fst (call_progress cb p m s)) = fs_ops s"
  "snd (call_progress cb p m s) =
     (case cb of None \<Rightarrow> None | Some c \<Rightarrow> c (progress_events s @ [(p, m)]))"
  by (simp_all add: call_progress_def split: option.splits)

lemma add_size_simps [simp]:
  "analytics (add_size sz s) = (analytics s)\<lparr>total_size_bytes := total_size_bytes (analytics s) + sz\<rparr>"
  "seen_hashes (add_size sz s) = seen_hashes s"
  "duplicate_files (add_size sz s) = duplicate_files s"
  "saved_bytes (add_size sz s) = saved_bytes s"
  "progress_events (add_size sz s) = progress_events s"
  "fs_ops (add_size sz s) = fs_ops s"
  by (simp_all add: add_size_def)

lemma count_duplicate_simps [simp]:
  "analytics (count_duplicate sz s) = analytics s"
  "seen_hashes (count_duplicate sz s) = seen_hashes s"
  "duplicate_files (count_duplicate sz s) = duplicate_files s + 1"
  "saved_bytes (count_duplicate sz s) = saved_bytes s + sz"
  "progress_events (count_duplicate sz s) = progress_events s"
  "fs_ops (count_duplicate sz s) = fs_ops s"
  by (simp_all add: count_duplicate_def)

lemma remember_hash_simps [simp]:
  "analytics (remember_hash h n s) = analytics s"
  "seen_hashes (remember_hash h n s) = dict_set (seen_hashes s) h n"
  "duplicate_files (remember_hash h n s) = duplicate_files s"
  "saved_bytes (remember_hash h n s) = saved_bytes s"
  "progress_events (remember_hash h n s) = progress_events s"
  "fs_ops (remember_hash h n s) = fs_ops s"
  by (simp_all add: remember_hash_def)

lemma count_category_simps [simp]:
  "analytics (count_category c s) = (analytics s)\<lparr>categories :=
      dict_increment (dict_setdefault (categories (analytics s)) c 0) c\<rparr>"
  "seen_hashes (count_category c s) = seen_hashes s"
  "duplicate_files (count_category c s) = duplicate_files s"
  "saved_bytes (count_category c s) = saved_bytes s"
  "progress_events (count_category c s) = progress_events s"
  "fs_ops (count_category c s) = fs_ops s"
  by (simp_all add: count_category_def)

lemma report_progress_simps [simp]:
  "analytics (fst (report_progress cb t i f x s)) = (analytics s)\<lparr>logs := logs (analytics s) @ [x]\<rparr>"
  "seen_hashes (fst (report_progress cb t i f x s)) = seen_hashes s"
  "duplicate_files (fst (report_progress cb t i f x s)) = duplicate_files s"
  "saved_bytes (fst (report_progress cb t i f x s)) = saved_bytes s"
  "progress_events (fst (report_progress cb t i f x s)) = progress_events s @
     (if cb \<noteq> None \<and> t \<noteq> 0
      then [(percent i t, ''Processing '' @ name f @ '' ('' @ str_nat i @ ''/'' @ str_nat t @ '')'')]
      else [])"
  "fs_ops (fst (report_progress cb t i f x s)) = fs_ops s"
  by (simp_all add: report_progress_def Let_def)

text \<open>A callback that returns at every call lets no exception out of the loop.\<close>

lemma report_progress_returns:
  "\<forall>c. cb = Some c \<longrightarrow> (\<forall>calls. c calls = None) \<Longrightarrow> snd (report_progress cb t i f x s) = None"
  by (simp add: report_progress_def Let_def split: option.splits)

lemma relative_to_append: "relative_to (folder @ rest) folder = Inr rest"
  by (induction folder) simp_all

lemma get_destination_path_below:
  "get_destination_path l folder f c m = Inr d \<Longrightarrow> \<exists>rest. d = folder @ c # rest"
  by (auto simp: get_destination_path_def join_path_def Let_def split: if_splits sum.splits)

lemma get_destination_path_relative:
  "get_destination_path l folder f c m = Inr d \<Longrightarrow>
     relative_to d folder = Inr (drop (length folder) d)"
  by (auto dest!: get_destination_path_below simp: relative_to_append)

text \<open>The hasher: the digest of a readable file is the digest of its content.\<close>

lemma read_blocks_all: "0 < block_size \<Longrightarrow> read_blocks block_size rest hasher = hasher @ rest"
proof (induction block_size rest hasher rule: read_blocks.induct)
  case (1 block_size rest hasher)
  show ?case
  proof (cases "rest = []")
    case True
    then show ?thesis by (subst read_blocks.simps) simp
  next
    case False
    with "1.prems" have nonempty: "0 < length (take block_size rest)"
      by (cases rest) simp_all
    from "1.IH" [OF refl nonempty "1.prems"] nonempty show ?thesis
      by (subst read_blocks.simps) (simp add: Let_def)
  qed
qed

lemma calculate_hash_readable:
  "read_error f = None \<Longrightarrow> calculate_hash l f = Some (md5 l (content f))"
  by (simp add: calculate_hash_def read_blocks_all)

lemma calculate_hash_unreadable:
  "read_error f = Some e \<Longrightarrow> calculate_hash l f = None"
  by (simp add: calculate_hash_def)

lemma calculate_hash_code [code]:
  "calculate_hash l f =
     (case read_error f of Some e \<Rightarrow> None | None \<Rightarrow> Some (md5 l (content f)))"
  by (simp add: calculate_hash_def read_blocks_all split: option.splits)

text \<open>The organization logic, by the first operation that fails.\<close>

lemma organization_logic_log_entry:
  "organization_logic l folder m f log_entry s = organization_logic l folder m f [] s"
  by (simp add: organization_logic_def)

lemma organization_logic_no_category:
  "get_category l (suffix f) = Inl e \<Longrightarrow>
   organization_logic l folder m f log_entry s = (s, Raised e)"
  by (simp add: organization_logic_def)

lemma organization_logic_no_destination:
  "get_category l (suffix f) = Inr c \<Longrightarrow>
   get_destination_path l folder f c m = Inl e \<Longrightarrow>
   organization_logic l folder m f log_entry s = (count_category c s, Raised e)"
  by (simp add: organization_logic_def)

lemma organization_logic_mkdir_fails:
  "get_category l (suffix f) = Inr c \<Longrightarrow>
   get_destination_path l folder f c m = Inr d \<Longrightarrow>
   mkdir_error f = Some e \<Longrightarrow>
   organization_logic l folder m f log_entry s = (count_category c s, Raised e)"
  by (simp add: organization_logic_def)

lemma organization_logic_move_fails:
  "get_category l (suffix f) = Inr c \<Longrightarrow>
   get_destination_path l folder f c m = Inr d \<Longrightarrow>
   mkdir_error f = None \<Longrightarrow> move_error f = Some e \<Longrightarrow>
   organization_logic l folder m f log_entry s =
     (perform (Mkdir d True) (count_category c s), Raised e)"
  by (simp add: organization_logic_def)

lemma organization_logic_moves:
  "get_category l (suffix f) = Inr c \<Longrightarrow>
   get_destination_path l folder f c m = Inr d \<Longrightarrow>
   mkdir_error f = None \<Longrightarrow> move_error f = None \<Longrightarrow>
   organization_logic l folder m f log_entry s =
     (perform (Move (folder @ [name f]) (d @ [name f]))
        (perform (Mkdir d True) (count_category c s)),
      Completed (''Moved: '' @ name f @ '' '' @ rightwards_arrow @ '' ''
                   @ str_path (drop (length folder) d)))"
  by (simp add: organization_logic_def get_destination_path_relative join_path_def)

lemma organization_logic_logs:
  "organization_logic l folder m f le s = (s', out) \<Longrightarrow>
     logs (analytics s') = logs (analytics s) \<and> out \<noteq> Continued"
  by (auto simp: organization_logic_def Let_def split: sum.splits option.splits)

lemma organization_logic_frame:
  "organization_logic l folder m f log_entry s = (s', out) \<Longrightarrow>
     analytics s' =
       analytics (case get_category l (suffix f) of
                    Inl e \<Rightarrow> s
                  | Inr c \<Rightarrow> count_category c s)
     \<and> seen_hashes s' = seen_hashes s \<and> duplicate_files s' = duplicate_files s
     \<and> saved_bytes s' = saved_bytes s \<and> progress_events s' = progress_events s"
  by (auto simp: organization_logic_def Let_def split: sum.splits option.splits)

lemma organization_logic_ops:
  "organization_logic l folder m f log_entry s = (s', out) \<Longrightarrow>
   fs_ops s' = fs_ops s @
     (case get_category l (suffix f) of
        Inl e \<Rightarrow> []
      | Inr c \<Rightarrow>
          (case get_destination_path l folder f c m of
             Inl e \<Rightarrow> []
           | Inr d \<Rightarrow>
               if mkdir_error f = None
               then Mkdir d True #
                      (if move_error f = None then [Move (folder @ [name f]) (d @ [name f])]
                       else [])
               else []))"
  by (auto simp: organization_logic_def Let_def join_path_def split: sum.splits option.splits)

text \<open>The state in which a file that is not a duplicate enters the organization logic.\<close>

lemma try_body_size_error:
  "st_size f = Inl e \<Longrightarrow> try_body l folder m chk cb t i f s = (s, Raised e)"
  by (simp add: try_body_def)

lemma try_body_not_duplicate:
  assumes "st_size f = Inr sz"
    and "\<not> (chk \<and> (\<exists>h. calculate_hash l f = Some h \<and> dict_contains (seen_hashes s) h))"
  shows "try_body l folder m chk cb t i f s =
     organization_logic l folder m f []
       (case (if chk then calculate_hash l f else None) of
          None \<Rightarrow> add_size sz s
        | Some h \<Rightarrow> remember_hash h (name f) (add_size sz s))"
  using assms
  by (auto simp: try_body_def Let_def organization_logic_log_entry [of _ _ _ _ "_ # _"]
      split: option.splits)

text \<open>The iteration of a detected duplicate.\<close>

lemma try_body_duplicate:
  assumes "st_size f = Inr sz" "chk" "calculate_hash l f = Some h"
    and "dict_contains (seen_hashes s) h"
  shows "try_body l folder m chk cb t i f s =
     (case mkdir_error f of
        Some e \<Rightarrow> (count_duplicate sz (add_size sz s), Raised e)
      | None \<Rightarrow>
          (case move_error f of
             Some e \<Rightarrow>
               (perform (Mkdir (folder @ [''Duplicates (Removed)'']) False)
                  (count_duplicate sz (add_size sz s)), Raised e)
           | None \<Rightarrow>
               (fst (call_progress cb (percent i t)
                  (''DUPLICATE REMOVED: '' @ name f @ '' -> Duplicates'')
                  (append_log (''DUPLICATE REMOVED: '' @ name f @ '' -> Duplicates'')
                     (perform (Move (folder @ [name f])
                                (folder @ [''Duplicates (Removed)'', name f]))
                        (perform (Mkdir (folder @ [''Duplicates (Removed)'']) False)
                           (count_duplicate sz (add_size sz s)))))),
                case snd (call_progress cb (percent i t)
                  (''DUPLICATE REMOVED: '' @ name f @ '' -> Duplicates'')
                  (append_log (''DUPLICATE REMOVED: '' @ name f @ '' -> Duplicates'')
                     (perform (Move (folder @ [name f])
                                (folder @ [''Duplicates (Removed)'', name f]))
                        (perform (Mkdir (folder @ [''Duplicates (Removed)'']) False)
                           (count_duplicate sz (add_size sz s)))))) of
                  None \<Rightarrow> Continued
                | Some e \<Rightarrow> Raised e)))"
  using assms
  by (cases cb)
    (simp_all add: try_body_def Let_def join_path_def call_progress_def split: option.splits)

text \<open>One iteration, by the way its \<^verbatim>\<open>try\<close> block ends.\<close>

lemma process_file_size_error:
  "st_size f = Inl e \<Longrightarrow>
   process_file l folder m chk cb t i f s =
     report_progress cb t i f (''ERROR moving '' @ name f @ '': '' @ str_error e) s"
  by (simp add: process_file_def try_body_def)

lemma process_file_returns:
  assumes "\<forall>c. cb = Some c \<longrightarrow> (\<forall>calls. c calls = None)"
  shows "snd (process_file l folder m chk cb t i f s) = None"
proof (cases "try_body l folder m chk cb t i f s")
  case (Pair s' out)
  then show ?thesis
    by (cases out) (simp_all add: process_file_def report_progress_returns [OF assms])
qed

text \<open>
  The lines that one iteration appends to the log. A detected duplicate whose move succeeded
  has its \<open>DUPLICATE REMOVED\<close> line; when the callback then raises inside the \<^verbatim>\<open>try\<close>, an
  \<open>ERROR moving\<close> line follows it.
\<close>

lemma process_file_logs:
  "logs (analytics (fst (process_file l folder m chk cb t i f s))) =
     logs (analytics s) @
       (case st_size f of
          Inl e \<Rightarrow> [''ERROR moving '' @ name f @ '': '' @ str_error e]
        | Inr sz \<Rightarrow>
            if chk \<and> (\<exists>h. calculate_hash l f = Some h \<and> dict_contains (seen_hashes s) h)
            then (case mkdir_error f of
                    Some e \<Rightarrow> [''ERROR moving '' @ name f @ '': '' @ str_error e]
                  | None \<Rightarrow>
                      (case move_error f of
                         Some e \<Rightarrow> [''ERROR moving '' @ name f @ '': '' @ str_error e]
                       | None \<Rightarrow>
                           (''DUPLICATE REMOVED: '' @ name f @ '' -> Duplicates'') #
                           (case cb of
                              None \<Rightarrow> []
                            | Some c \<Rightarrow>
                                (case c (progress_events s @
                                        [(percent i t,
                                          ''DUPLICATE REMOVED: '' @ name f @ '' -> Duplicates'')]) of
                                   None \<Rightarrow> []
                                 | Some e \<Rightarrow>
                                     [''ERROR moving '' @ name f @ '': '' @ str_error e]))))
            else (case get_category l (suffix f) of
                    Inl e \<Rightarrow> [''ERROR moving '' @ name f @ '': '' @ str_error e]
                  | Inr c \<Rightarrow>
                      (case get_destination_path l folder f c m of
                         Inl e \<Rightarrow> [''ERROR moving '' @ name f @ '': '' @ str_error e]
                       | Inr d \<Rightarrow>
                           (case mkdir_error f of
                              Some e \<Rightarrow> [''ERROR moving '' @ name f @ '': '' @ str_error e]
                            | None \<Rightarrow>
                                (case move_error f of
                                   Some e \<Rightarrow>
                                     [''ERROR moving '' @ name f @ '': '' @ str_error e]
                                 | None \<Rightarrow>
                                     [''Moved: '' @ name f @ '' '' @ rightwards_arrow @ '' ''
                                        @ str_path (drop (length folder) d)])))))"
proof (cases "st_size f")
  case (Inl e)
  then show ?thesis
    by (simp add: process_file_size_error)
next
  case (Inr sz)
  show ?thesis
  proof (cases "chk \<and> (\<exists>h. calculate_hash l f = Some h \<and> dict_contains (seen_hashes s) h)")
    case True
    then obtain h where "chk" "calculate_hash l f = Some h" "dict_contains (seen_hashes s) h"
      by blast
    note body = try_body_duplicate [OF Inr this, of folder m cb t i]
    show ?thesis
      unfolding process_file_def body
      by (simp add: Inr if_P [OF True] split: option.splits)
  next
    case False
    let ?s0 = "case (if chk then calculate_hash l f else None) of
          None \<Rightarrow> add_size sz s
        | Some h \<Rightarrow> remember_hash h (name f) (add_size sz s)"
    have s0: "logs (analytics ?s0) = logs (analytics s)"
      by (simp split: option.splits)
    note body = try_body_not_duplicate [OF Inr False, of folder m cb t i]
    show ?thesis
    proof (cases "get_category l (suffix f)")
      case (Inl e)
      show ?thesis
        unfolding process_file_def body organization_logic_no_category [OF Inl]
        by (simp add: Inr Inl s0 if_not_P [OF False])
    next
      case c: (Inr c)
      show ?thesis
      proof (cases "get_destination_path l folder f c m")
        case (Inl e)
        show ?thesis
          unfolding process_file_def body organization_logic_no_destination [OF c Inl]
          by (simp add: Inr c Inl s0 if_not_P [OF False])
      next
        case d: (Inr d)
        show ?thesis
        proof (cases "mkdir_error f")
          case (Some e)
          show ?thesis
            unfolding process_file_def body organization_logic_mkdir_fails [OF c d Some]
            by (simp add: Inr c d Some s0 if_not_P [OF False])
        next
          case None
          show ?thesis
          proof (cases "move_error f")
            case (Some e)
            show ?thesis
              unfolding process_file_def body organization_logic_move_fails [OF c d None Some]
              by (simp add: Inr c d None Some s0 if_not_P [OF False])
          next
            case move: None
            show ?thesis
              unfolding process_file_def body organization_logic_moves [OF c d None move]
              by (simp add: Inr c d None move s0 if_not_P [OF False])
          qed
        qed
      qed
    qed
  qed
qed

text \<open>The loop.\<close>

lemma organize_loop_Cons_returns:
  assumes "\<forall>c. cb = Some c \<longrightarrow> (\<forall>calls. c calls = None)"
  shows "organize_loop l folder m chk cb t i (f # fs) s =
     organize_loop l folder m chk cb t (Suc i) fs (fst (process_file l folder m chk cb t i f s))"
  using process_file_returns [OF assms, of l folder m chk t i f s]
  by (cases "process_file l folder m chk cb t i f s") simp

lemma organize_loop_returns:
  assumes "\<forall>c. cb = Some c \<longrightarrow> (\<forall>calls. c calls = None)"
  shows "snd (organize_loop l folder m chk cb t i fs s) = None"
  by (induction fs arbitrary: i s)
    (simp_all add: organize_loop_Cons_returns [OF assms] del: organize_loop.simps(2))

lemma organize_loop_append:
  assumes "\<forall>c. cb = Some c \<longrightarrow> (\<forall>calls. c calls = None)"
  shows "organize_loop l folder m chk cb t i (xs @ ys) s =
     organize_loop l folder m chk cb t (i + length xs) ys
       (fst (organize_loop l folder m chk cb t i xs s))"
  by (induction xs arbitrary: i s)
    (simp_all add: organize_loop_Cons_returns [OF assms] del: organize_loop.simps(2))

lemma process_file_one_line:
  assumes "\<forall>c. cb = Some c \<longrightarrow> (\<forall>calls. c calls = None)"
  shows "\<exists>x. logs (analytics (fst (process_file l folder m chk cb t i f s)))
            = logs (analytics s) @ [x]"
proof (cases cb)
  case None
  show ?thesis
    unfolding process_file_logs by (simp add: None split: sum.splits option.splits)
next
  case (Some c)
  with assms have "c calls = None" for calls
    by simp
  then show ?thesis
    unfolding process_file_logs by (simp add: Some split: sum.splits option.splits)
qed

lemma organize_loop_logs:
  assumes "\<forall>c. cb = Some c \<longrightarrow> (\<forall>calls. c calls = None)"
  shows "\<exists>ys. logs (analytics (fst (organize_loop l folder m chk cb t i fs s)))
             = logs (analytics s) @ ys
        \<and> length ys = length fs"
proof (induction fs arbitrary: i s)
  case Nil
  then show ?case by simp
next
  case (Cons f fs)
  from process_file_one_line [OF assms, of l folder m chk t i f s]
  obtain x where x: "logs (analytics (fst (process_file l folder m chk cb t i f s)))
      = logs (analytics s) @ [x]"
    by blast
  from Cons [of "Suc i" "fst (process_file l folder m chk cb t i f s)"]
  show ?case
    by (auto simp: organize_loop_Cons_returns [OF assms] x simp del: organize_loop.simps(2))
qed

lemma process_file_total_files:
  "total_files (analytics (fst (process_file l folder m chk cb t i f s)))
     = total_files (analytics s)"
proof (cases "try_body l folder m chk cb t i f s")
  case (Pair s' out)
  have "total_files (analytics s') = total_files (analytics s)"
    using Pair
    by (cases cb)
      (auto simp: try_body_def Let_def call_progress_def
        split: sum.splits option.splits if_splits dest!: organization_logic_frame)
  with Pair show ?thesis
    by (cases out) (simp_all add: process_file_def)
qed

lemma organize_loop_total_files:
  "total_files (analytics (fst (organize_loop l folder m chk cb t i fs s)))
     = total_files (analytics s)"
proof (induction fs arbitrary: i s)
  case Nil
  then show ?case by simp
next
  case (Cons f fs)
  from Cons [of "Suc i" "fst (process_file l folder m chk cb t i f s)"]
    process_file_total_files [of l folder m chk cb t i f s]
  show ?case
    by (cases "process_file l folder m chk cb t i f s") (auto split: option.splits)
qed

text \<open>
  A run over a non-empty list whose callback returns at every call returns the log and the
  counters of the loop.
\<close>

lemma organize_files_nonempty:
  assumes "eligible entries \<noteq> []"
    and "\<forall>c. cb = Some c \<longrightarrow> (\<forall>calls. c calls = None)"
  shows "organize_files l folder m chk cb (Inr entries) =
     (let total_n = length (eligible entries);
          s1 = fst (organize_loop l folder m chk cb total_n 1 (eligible entries)
                      (initial_state total_n))
      in Inr \<lparr>returned_logs = logs (analytics s1),
              returned_analytics =
                (analytics s1)\<lparr>time_taken_sec := round3 (time_end l - time_start l),
                                duplicates_removed := duplicate_files s1,
                                space_saved_bytes := saved_bytes s1\<rparr>,
              emitted = progress_events s1 @
                (if cb = None then []
                 else [(100, ''Completed '' @ em_dash @ '' '' @ str_nat total_n
                               @ '' files organized.'')]),
              performed = fs_ops s1\<rparr>)"
proof -
  let ?t = "length (eligible entries)"
  obtain s1 where s1: "organize_loop l folder m chk cb ?t 1 (eligible entries)
      (initial_state ?t) = (s1, None)"
    using organize_loop_returns [OF assms(2), of l folder m chk ?t 1 "eligible entries"
        "initial_state ?t"]
    by (cases "organize_loop l folder m chk cb ?t 1 (eligible entries) (initial_state ?t)")
      simp
  have total: "total_files (analytics s1) = ?t"
    using organize_loop_total_files [of l folder m chk cb ?t 1 "eligible entries"
        "initial_state ?t"]
    unfolding s1 by (simp add: initial_state_def)
  have returns: "snd (call_progress cb p msg s) = None" for p msg s
    using assms(2) by (cases cb) (simp_all add: call_progress_def)
  from assms(1) show ?thesis
    by (simp add: organize_files_def Let_def s1 total case_prod_beta returns
        del: One_nat_def call_progress_simps(7))
qed


lemma run_mixed:
  "organize_files example_lib example_folder ''Category Only'' True (Some quiet_callback)
     (Inr [vanished_bin, stuck_txt, photo_png]) =
     Inr \<lparr>returned_logs =
            [''ERROR moving data.bin: [Errno 2] No such file or directory'',
             ''ERROR moving stuck.txt: [Errno 13] Permission denied'',
             ''Moved: photo.PNG '' @ rightwards_arrow @ '' Images''],
          returned_analytics =
            \<lparr>total_files = 3, total_size_bytes = 5,
             categories = [(''Documents'', 1), (''Images'', 1)],
             time_taken_sec = 1 / 4, duplicates_removed = 0, space_saved_bytes = 0,
             logs = [''ERROR moving data.bin: [Errno 2] No such file or directory'',
                     ''ERROR moving stuck.txt: [Errno 13] Permission denied'',
                     ''Moved: photo.PNG '' @ rightwards_arrow @ '' Images'']\<rparr>,
          emitted =
            [(33, ''Processing data.bin (1/3)''), (66, ''Processing stuck.txt (2/3)''),
             (100, ''Processing photo.PNG (3/3)''),
             (100, ''Completed '' @ em_dash @ '' 3 files organized.'')],
          performed =
            [Mkdir [''home'', ''user'', ''Downloads'', ''Documents''] True,
             Mkdir [''home'', ''user'', ''Downloads'', ''Images''] True,
             Move [''home'', ''user'', ''Downloads'', ''photo.PNG'']
                  [''home'', ''user'', ''Downloads'', ''Images'', ''photo.PNG'']]\<rparr>"
  by code_simp



text \<open>The dictionary of the category counters.\<close>

lemma dict_contains_map_of: "dict_contains d k \<longleftrightarrow> map_of d k \<noteq> None"
  by (simp add: dict_contains_def map_of_eq_None_iff)

lemma map_of_dict_setdefault:
  "map_of (dict_setdefault d k v) k' =
     (if k' = k \<and> map_of d k = None then Some v else map_of d k')"
  by (auto simp: dict_setdefault_def dict_contains_map_of map_add_def split: option.splits)

lemma map_of_dict_increment:
  "map_of (dict_increment d k) k' =
     (if k' = k then map_option Suc (map_of d k) else map_of d k')"
  by (induction d) (auto simp: dict_increment_def)

lemma category_count_count_category:
  "category_count (analytics (count_category c s)) k =
     category_count (analytics s) k + (if k = c then 1 else 0)"
  by (simp add: category_count_def map_of_dict_increment map_of_dict_setdefault
      split: option.splits)

text \<open>What one iteration does to the counters and to the file system.\<close>

lemma process_file_duplicate:
  assumes "st_size f = Inr sz" "chk" "calculate_hash l f = Some h"
    and "dict_contains (seen_hashes s) h"
  shows "analytics (fst (process_file l folder m chk cb t i f s)) =
       (analytics s)\<lparr>total_size_bytes := total_size_bytes (analytics s) + sz,
                      logs := logs (analytics (fst (process_file l folder m chk cb t i f s)))\<rparr>"
    and "duplicate_files (fst (process_file l folder m chk cb t i f s)) = duplicate_files s + 1"
    and "saved_bytes (fst (process_file l folder m chk cb t i f s)) = saved_bytes s + sz"
    and "seen_hashes (fst (process_file l folder m chk cb t i f s)) = seen_hashes s"
    and "fs_ops (fst (process_file l folder m chk cb t i f s)) = fs_ops s @
       (case mkdir_error f of
          Some e \<Rightarrow> []
        | None \<Rightarrow>
            Mkdir (folder @ [''Duplicates (Removed)'']) False #
            (case move_error f of
               Some e \<Rightarrow> []
             | None \<Rightarrow>
                 [Move (folder @ [name f]) (folder @ [''Duplicates (Removed)'', name f])]))"
  unfolding process_file_def try_body_duplicate [OF assms]
  by (simp_all split: option.splits)

lemma process_file_not_duplicate:
  assumes "st_size f = Inr sz"
    and "\<not> (chk \<and> (\<exists>h. calculate_hash l f = Some h \<and> dict_contains (seen_hashes s) h))"
  shows "categories (analytics (fst (process_file l folder m chk cb t i f s))) =
       (case get_category l (suffix f) of
          Inl e \<Rightarrow> categories (analytics s)
        | Inr c \<Rightarrow> dict_increment (dict_setdefault (categories (analytics s)) c 0) c)"
    and "duplicate_files (fst (process_file l folder m chk cb t i f s)) = duplicate_files s"
    and "saved_bytes (fst (process_file l folder m chk cb t i f s)) = saved_bytes s"
    and "seen_hashes (fst (process_file l folder m chk cb t i f s)) =
       (case (if chk then calculate_hash l f else None) of
          None \<Rightarrow> seen_hashes s
        | Some h \<Rightarrow> dict_set (seen_hashes s) h (name f))"
    and "fs_ops (fst (process_file l folder m chk cb t i f s)) = fs_ops s @
       (case get_category l (suffix f) of
          Inl e \<Rightarrow> []
        | Inr c \<Rightarrow>
            (case get_destination_path l folder f c m of
               Inl e \<Rightarrow> []
             | Inr d \<Rightarrow>
                 if mkdir_error f = None
                 then Mkdir d True #
                        (if move_error f = None
                         then [Move (folder @ [name f]) (d @ [name f])]
                         else [])
                 else []))"
proof -
  let ?s0 = "case (if chk then calculate_hash l f else None) of
          None \<Rightarrow> add_size sz s
        | Some h \<Rightarrow> remember_hash h (name f) (add_size sz s)"
  note body = try_body_not_duplicate [OF assms, of folder m cb t i]
  obtain s' out where out: "organization_logic l folder m f [] ?s0 = (s', out)"
    by (cases "organization_logic l folder m f [] ?s0")
  from organization_logic_logs [OF out] have "out \<noteq> Continued"
    by simp
  then obtain x where after: "fst (process_file l folder m chk cb t i f s)
      = fst (report_progress cb t i f x s')"
    unfolding process_file_def body out by (cases out) simp_all
  note frame = organization_logic_frame [OF out]
  note ops = organization_logic_ops [OF out]
  show "categories (analytics (fst (process_file l folder m chk cb t i f s))) =
       (case get_category l (suffix f) of
          Inl e \<Rightarrow> categories (analytics s)
        | Inr c \<Rightarrow> dict_increment (dict_setdefault (categories (analytics s)) c 0) c)"
    unfolding after using frame by (simp split: sum.splits option.splits)
  show "duplicate_files (fst (process_file l folder m chk cb t i f s)) = duplicate_files s"
    unfolding after using frame by (simp split: option.splits)
  show "saved_bytes (fst (process_file l folder m chk cb t i f s)) = saved_bytes s"
    unfolding after using frame by (simp split: option.splits)
  show "seen_hashes (fst (process_file l folder m chk cb t i f s)) =
       (case (if chk then calculate_hash l f else None) of
          None \<Rightarrow> seen_hashes s
        | Some h \<Rightarrow> dict_set (seen_hashes s) h (name f))"
    unfolding after using frame by (simp split: option.splits)
  show "fs_ops (fst (process_file l folder m chk cb t i f s)) = fs_ops s @
       (case get_category l (suffix f) of
          Inl e \<Rightarrow> []
        | Inr c \<Rightarrow>
            (case get_destination_path l folder f c m of
               Inl e \<Rightarrow> []
             | Inr d \<Rightarrow>
                 if mkdir_error f = None
                 then Mkdir d True #
                        (if move_error f = None
                         then [Move (folder @ [name f]) (d @ [name f])]
                         else [])
                 else []))"
    unfolding after using ops by (simp split: option.splits)
qed

lemma process_file_categories:
  "categories (analytics (fst (process_file l folder m chk cb t i f s))) =
     (if (\<exists>sz. st_size f = Inr sz)
         \<and> \<not> (chk \<and> (\<exists>h. calculate_hash l f = Some h \<and> dict_contains (seen_hashes s) h))
      then (case get_category l (suffix f) of
              Inl e \<Rightarrow> categories (analytics s)
            | Inr c \<Rightarrow> dict_increment (dict_setdefault (categories (analytics s)) c 0) c)
      else categories (analytics s))"
proof (cases "st_size f")
  case (Inl e)
  then show ?thesis
    by (simp add: process_file_size_error)
next
  case (Inr sz)
  show ?thesis
  proof (cases "chk \<and> (\<exists>h. calculate_hash l f = Some h \<and> dict_contains (seen_hashes s) h)")
    case True
    then obtain h where h: "chk" "calculate_hash l f = Some h" "dict_contains (seen_hashes s) h"
      by blast
    have "categories (analytics (fst (process_file l folder m chk cb t i f s)))
        = categories (analytics s)"
      by (subst process_file_duplicate(1) [OF Inr h]) simp
    with True show ?thesis
      by simp
  next
    case False
    from process_file_not_duplicate(1) [OF Inr False, of folder m cb t i] False Inr
    show ?thesis
      by simp
  qed
qed

lemma process_file_category_count:
  "category_count (analytics (fst (process_file l folder m chk cb t i f s))) k =
     category_count (analytics s) k +
       (if (\<exists>sz. st_size f = Inr sz)
           \<and> \<not> (chk \<and> (\<exists>h. calculate_hash l f = Some h \<and> dict_contains (seen_hashes s) h))
           \<and> get_category l (suffix f) = Inr k
        then 1 else 0)"
  unfolding category_count_def process_file_categories
  by (auto simp: map_of_dict_increment map_of_dict_setdefault split: option.splits sum.splits)

lemma process_file_duplicate_counters:
  "duplicate_files (fst (process_file l folder m chk cb t i f s)) =
     duplicate_files s +
       (if \<exists>sz h. st_size f = Inr sz \<and> chk \<and> calculate_hash l f = Some h
              \<and> dict_contains (seen_hashes s) h then 1 else 0)
   \<and> saved_bytes (fst (process_file l folder m chk cb t i f s)) =
     saved_bytes s +
       (case st_size f of
          Inl e \<Rightarrow> 0
        | Inr sz \<Rightarrow>
            if chk \<and> (\<exists>h. calculate_hash l f = Some h \<and> dict_contains (seen_hashes s) h)
            then sz else 0)"
proof (cases "st_size f")
  case (Inl e)
  then show ?thesis
    by (simp add: process_file_size_error)
next
  case (Inr sz)
  show ?thesis
  proof (cases "chk \<and> (\<exists>h. calculate_hash l f = Some h \<and> dict_contains (seen_hashes s) h)")
    case True
    then obtain h where h: "chk" "calculate_hash l f = Some h" "dict_contains (seen_hashes s) h"
      by blast
    from process_file_duplicate(2,3) [OF Inr h, of folder m cb t i] True Inr show ?thesis
      by auto
  next
    case False
    from process_file_not_duplicate(2,3) [OF Inr False, of folder m cb t i] False Inr
    show ?thesis
      by auto
  qed
qed

lemma organize_loop_counters_mono:
  "category_count (analytics s) k
     \<le> category_count (analytics (fst (organize_loop l folder m chk cb t i fs s))) k
   \<and> duplicate_files s \<le> duplicate_files (fst (organize_loop l folder m chk cb t i fs s))
   \<and> saved_bytes s \<le> saved_bytes (fst (organize_loop l folder m chk cb t i fs s))"
proof (induction fs arbitrary: i s)
  case Nil
  then show ?case by simp
next
  case (Cons f fs)
  let ?p = "process_file l folder m chk cb t i f s"
  have 1: "category_count (analytics s) k \<le> category_count (analytics (fst ?p)) k"
    by (simp add: process_file_category_count)
  have 2: "duplicate_files s \<le> duplicate_files (fst ?p)"
    and 3: "saved_bytes s \<le> saved_bytes (fst ?p)"
    using process_file_duplicate_counters [of l folder m chk cb t i f s] by simp_all
  show ?case
  proof (cases "snd ?p")
    case None
    then have "organize_loop l folder m chk cb t i (f # fs) s
        = organize_loop l folder m chk cb t (Suc i) fs (fst ?p)"
      by (cases ?p) simp
    with 1 2 3 Cons.IH [where i = "Suc i" and s = "fst ?p"] show ?thesis
      by (auto intro: order_trans)
  next
    case (Some e)
    then have "fst (organize_loop l folder m chk cb t i (f # fs) s) = fst ?p"
      by (cases ?p) simp
    with 1 2 3 show ?thesis
      by simp
  qed
qed

text \<open>
  C9. A file whose size was read, that is not detected as a duplicate and that has a
  category has the counter of its category incremented, whatever happens next. When its
  destination is resolved and the directory creation or the move then raises \<open>e\<close>, the
  iteration logs \<open>ERROR moving <name>: <str(e)>\<close>, performs no move, and the count stays
  incremented in every later state of the loop: the counter of a category can exceed the
  number of files moved into it.
\<close>

theorem category_counted_before_move:
  assumes size: "st_size f = Inr sz"
    and not_duplicate:
      "\<not> (chk \<and> (\<exists>h. calculate_hash l f = Some h \<and> dict_contains (seen_hashes s) h))"
    and category: "get_category l (suffix f) = Inr c"
  shows "category_count (analytics (fst (process_file l folder m chk cb t i f s))) c
         = category_count (analytics s) c + 1
     \<and> (\<forall>d e. get_destination_path l folder f c m = Inr d \<longrightarrow>
           (mkdir_error f = Some e \<or> mkdir_error f = None \<and> move_error f = Some e) \<longrightarrow>
           logs (analytics (fst (process_file l folder m chk cb t i f s)))
             = logs (analytics s) @ [''ERROR moving '' @ name f @ '': '' @ str_error e]
           \<and> fs_ops (fst (process_file l folder m chk cb t i f s))
             = fs_ops s @ (if mkdir_error f = None then [Mkdir d True] else [])
           \<and> (\<forall>fs. category_count (analytics s) c + 1
                  \<le> category_count
                       (analytics (fst (organize_loop l folder m chk cb t (Suc i) fs
                          (fst (process_file l folder m chk cb t i f s)))))
                       c))"
proof (intro conjI allI impI)
  let ?s' = "fst (process_file l folder m chk cb t i f s)"
  show counted: "category_count (analytics ?s') c = category_count (analytics s) c + 1"
    using size not_duplicate category by (simp add: process_file_category_count)
  fix d e
  assume dest: "get_destination_path l folder f c m = Inr d"
    and fails: "mkdir_error f = Some e \<or> mkdir_error f = None \<and> move_error f = Some e"
  show "logs (analytics ?s') = logs (analytics s) @ [''ERROR moving '' @ name f @ '': '' @ str_error e]"
    unfolding process_file_logs if_not_P [OF not_duplicate]
    using fails by (auto simp: size category dest)
  show "fs_ops ?s' = fs_ops s @ (if mkdir_error f = None then [Mkdir d True] else [])"
    unfolding process_file_not_duplicate(5) [OF size not_duplicate]
    using fails by (auto simp: category dest)
  fix fs
  from organize_loop_counters_mono [of ?s' c l folder m chk cb t "Suc i" fs] counted
  show "category_count (analytics s) c + 1
      \<le> category_count (analytics (fst (organize_loop l folder m chk cb t (Suc i) fs ?s'))) c"
    by simp
qed

text \<open>
  C10. A file detected as a duplicate (its digest is in \<open>seen_hashes\<close>) increments the
  duplicate counter and adds its size to the saved bytes before the directory creation and
  the move are attempted, and no later iteration lowers them. When the directory creation or
  the move raises \<open>e\<close>, the iteration logs \<open>ERROR moving <name>: <str(e)>\<close> instead of the
  \<open>DUPLICATE REMOVED\<close> line and performs no move: the report counts a duplicate that was
  not relocated.
\<close>

theorem duplicate_counted_before_move:
  assumes size: "st_size f = Inr sz"
    and chk: "chk"
    and hash: "calculate_hash l f = Some h"
    and seen: "dict_contains (seen_hashes s) h"
  shows "duplicate_files (fst (process_file l folder m chk cb t i f s)) = duplicate_files s + 1
     \<and> saved_bytes (fst (process_file l folder m chk cb t i f s)) = saved_bytes s + sz
     \<and> (\<forall>fs. duplicate_files s + 1
               \<le> duplicate_files (fst (organize_loop l folder m chk cb t (Suc i) fs
                    (fst (process_file l folder m chk cb t i f s))))
            \<and> saved_bytes s + sz
               \<le> saved_bytes (fst (organize_loop l folder m chk cb t (Suc i) fs
                    (fst (process_file l folder m chk cb t i f s)))))
     \<and> (\<forall>e. mkdir_error f = Some e \<or> mkdir_error f = None \<and> move_error f = Some e \<longrightarrow>
           logs (analytics (fst (process_file l folder m chk cb t i f s)))
             = logs (analytics s) @ [''ERROR moving '' @ name f @ '': '' @ str_error e]
           \<and> fs_ops (fst (process_file l folder m chk cb t i f s))
             = fs_ops s @ (if mkdir_error f = None
                           then [Mkdir (folder @ [''Duplicates (Removed)'']) False] else []))"
proof (intro conjI allI impI)
  let ?s' = "fst (process_file l folder m chk cb t i f s)"
  show dup: "duplicate_files ?s' = duplicate_files s + 1"
    by (rule process_file_duplicate(2) [OF size chk hash seen])
  show saved: "saved_bytes ?s' = saved_bytes s + sz"
    by (rule process_file_duplicate(3) [OF size chk hash seen])
  have detected: "chk \<and> (\<exists>h. calculate_hash l f = Some h \<and> dict_contains (seen_hashes s) h)"
    using chk hash seen by blast
  {
    fix fs
    from organize_loop_counters_mono [of ?s' _ l folder m chk cb t "Suc i" fs] dup saved
    show "duplicate_files s + 1
        \<le> duplicate_files (fst (organize_loop l folder m chk cb t (Suc i) fs ?s'))"
      and "saved_bytes s + sz
        \<le> saved_bytes (fst (organize_loop l folder m chk cb t (Suc i) fs ?s'))"
      by simp_all
  }
  fix e
  assume fails: "mkdir_error f = Some e \<or> mkdir_error f = None \<and> move_error f = Some e"
  show "logs (analytics ?s') = logs (analytics s) @ [''ERROR moving '' @ name f @ '': '' @ str_error e]"
    unfolding process_file_logs if_P [OF detected]
    using fails by (auto simp: size)
  show "fs_ops ?s' = fs_ops s @ (if mkdir_error f = None
      then [Mkdir (folder @ [''Duplicates (Removed)'']) False] else [])"
    unfolding process_file_duplicate(5) [OF size chk hash seen]
    using fails by auto
qed

lemma run_stuck:
  "organize_files example_lib example_folder ''Category Only'' True None (Inr [stuck_txt]) =
     Inr \<lparr>returned_logs = [''ERROR moving stuck.txt: [Errno 13] Permission denied''],
          returned_analytics =
            \<lparr>total_files = 1, total_size_bytes = 5, categories = [(''Documents'', 1)],
             time_taken_sec = 1 / 4, duplicates_removed = 0, space_saved_bytes = 0,
             logs = [''ERROR moving stuck.txt: [Errno 13] Permission denied'']\<rparr>,
          emitted = [],
          performed = [Mkdir [''home'', ''user'', ''Downloads'', ''Documents''] True]\<rparr>"
  by code_simp

theorem category_counted_before_move_witness:
  "st_size stuck_txt = Inr 5
   \<and> \<not> (True \<and> (\<exists>h. calculate_hash example_lib stuck_txt = Some h
                     \<and> dict_contains (seen_hashes (initial_state 1)) h))
   \<and> get_category example_lib (suffix stuck_txt) = Inr ''Documents''
   \<and> get_destination_path example_lib example_folder stuck_txt ''Documents'' ''Category Only''
       = Inr [''home'', ''user'', ''Downloads'', ''Documents'']
   \<and> mkdir_error stuck_txt = None
   \<and> move_error stuck_txt = Some (OSError ''[Errno 13] Permission denied'')
   \<and> category_count
        (analytics (fst (process_file example_lib example_folder ''Category Only'' True None 1 1
           stuck_txt (initial_state 1)))) ''Documents'' = 1
   \<and> logs (analytics (fst (process_file example_lib example_folder ''Category Only'' True None
           1 1 stuck_txt (initial_state 1))))
       = [''ERROR moving stuck.txt: [Errno 13] Permission denied'']
   \<and> fs_ops (fst (process_file example_lib example_folder ''Category Only'' True None 1 1
           stuck_txt (initial_state 1)))
       = [Mkdir [''home'', ''user'', ''Downloads'', ''Documents''] True]
   \<and> organize_files example_lib example_folder ''Category Only'' True None (Inr [stuck_txt]) =
       Inr \<lparr>returned_logs = [''ERROR moving stuck.txt: [Errno 13] Permission denied''],
            returned_analytics =
              \<lparr>total_files = 1, total_size_bytes = 5, categories = [(''Documents'', 1)],
               time_taken_sec = 1 / 4, duplicates_removed = 0, space_saved_bytes = 0,
               logs = [''ERROR moving stuck.txt: [Errno 13] Permission denied'']\<rparr>,
            emitted = [],
            performed = [Mkdir [''home'', ''user'', ''Downloads'', ''Documents''] True]\<rparr>"
proof -
  let ?s' = "fst (process_file example_lib example_folder ''Category Only'' True None 1 1
           stuck_txt (initial_state 1))"
  let ?e = "OSError ''[Errno 13] Permission denied''"
  have size: "st_size stuck_txt = Inr 5"
    by code_simp
  have not_duplicate: "\<not> (True \<and> (\<exists>h. calculate_hash example_lib stuck_txt = Some h
                     \<and> dict_contains (seen_hashes (initial_state 1)) h))"
    by (simp add: initial_state_def dict_contains_def)
  have category: "get_category example_lib (suffix stuck_txt) = Inr ''Documents''"
    by code_simp
  have dest: "get_destination_path example_lib example_folder stuck_txt ''Documents''
        ''Category Only'' = Inr [''home'', ''user'', ''Downloads'', ''Documents'']"
    by code_simp
  have mkdir: "mkdir_error stuck_txt = None"
    by code_simp
  have move: "move_error stuck_txt = Some ?e"
    by code_simp
  have line: "''ERROR moving '' @ name stuck_txt @ '': '' @ str_error ?e
      = ''ERROR moving stuck.txt: [Errno 13] Permission denied''"
    by code_simp
  have initial: "category_count (analytics (initial_state 1)) ''Documents'' = 0"
    "logs (analytics (initial_state 1)) = []" "fs_ops (initial_state 1) = []"
    by (simp_all add: initial_state_def category_count_def)
  have fails: "mkdir_error stuck_txt = Some ?e
      \<or> mkdir_error stuck_txt = None \<and> move_error stuck_txt = Some ?e"
    using mkdir move by simp
  note claim = category_counted_before_move [OF size not_duplicate category,
      of example_folder "''Category Only''" None 1 1]
  from conjunct1 [OF claim] have counted: "category_count (analytics ?s') ''Documents'' = 1"
    unfolding initial by simp
  note failed = claim [THEN conjunct2, rule_format, OF dest fails]
  from conjunct1 [OF failed]
  have logged: "logs (analytics ?s') = [''ERROR moving stuck.txt: [Errno 13] Permission denied'']"
    unfolding initial line by simp
  from conjunct1 [OF conjunct2 [OF failed]]
  have ops: "fs_ops ?s' = [Mkdir [''home'', ''user'', ''Downloads'', ''Documents''] True]"
    unfolding initial mkdir by simp
  show ?thesis
    by (intro conjI)
      (fact size not_duplicate category dest mkdir move counted logged ops run_stuck)+
qed

lemma run_stuck_copy:
  "organize_files example_lib example_folder ''Category Only'' True None
     (Inr [report_txt, stuck_copy_txt]) =
     Inr \<lparr>returned_logs =
            [''Moved: report.txt '' @ rightwards_arrow @ '' Documents'',
             ''ERROR moving copy.txt: [Errno 13] Permission denied''],
          returned_analytics =
            \<lparr>total_files = 2, total_size_bytes = 10, categories = [(''Documents'', 1)],
             time_taken_sec = 1 / 4, duplicates_removed = 1, space_saved_bytes = 5,
             logs = [''Moved: report.txt '' @ rightwards_arrow @ '' Documents'',
                     ''ERROR moving copy.txt: [Errno 13] Permission denied'']\<rparr>,
          emitted = [],
          performed =
            [Mkdir [''home'', ''user'', ''Downloads'', ''Documents''] True,
             Move [''home'', ''user'', ''Downloads'', ''report.txt'']
                  [''home'', ''user'', ''Downloads'', ''Documents'', ''report.txt''],
             Mkdir [''home'', ''user'', ''Downloads'', ''Duplicates (Removed)''] False]\<rparr>"
  by code_simp

theorem duplicate_counted_before_move_witness:
  "st_size stuck_copy_txt = Inr 5
   \<and> calculate_hash example_lib stuck_copy_txt = Some ''5d41402abc4b2a76b9719d911017c592''
   \<and> dict_contains
        (seen_hashes (fst (process_file example_lib example_folder ''Category Only'' True None
           2 1 report_txt (initial_state 2)))) ''5d41402abc4b2a76b9719d911017c592''
   \<and> mkdir_error stuck_copy_txt = None
   \<and> move_error stuck_copy_txt = Some (OSError ''[Errno 13] Permission denied'')
   \<and> duplicate_files
        (fst (process_file example_lib example_folder ''Category Only'' True None 2 2
           stuck_copy_txt
           (fst (process_file example_lib example_folder ''Category Only'' True None 2 1
              report_txt (initial_state 2))))) = 1
   \<and> saved_bytes
        (fst (process_file example_lib example_folder ''Category Only'' True None 2 2
           stuck_copy_txt
           (fst (process_file example_lib example_folder ''Category Only'' True None 2 1
              report_txt (initial_state 2))))) = 5
   \<and> logs (analytics
        (fst (process_file example_lib example_folder ''Category Only'' True None 2 2
           stuck_copy_txt
           (fst (process_file example_lib example_folder ''Category Only'' True None 2 1
              report_txt (initial_state 2))))))
       = [''Moved: report.txt '' @ rightwards_arrow @ '' Documents'',
          ''ERROR moving copy.txt: [Errno 13] Permission denied'']
   \<and> organize_files example_lib example_folder ''Category Only'' True None
        (Inr [report_txt, stuck_copy_txt]) =
       Inr \<lparr>returned_logs =
              [''Moved: report.txt '' @ rightwards_arrow @ '' Documents'',
               ''ERROR moving copy.txt: [Errno 13] Permission denied''],
            returned_analytics =
              \<lparr>total_files = 2, total_size_bytes = 10, categories = [(''Documents'', 1)],
               time_taken_sec = 1 / 4, duplicates_removed = 1, space_saved_bytes = 5,
               logs = [''Moved: report.txt '' @ rightwards_arrow @ '' Documents'',
                       ''ERROR moving copy.txt: [Errno 13] Permission denied'']\<rparr>,
            emitted = [],
            performed =
              [Mkdir [''home'', ''user'', ''Downloads'', ''Documents''] True,
               Move [''home'', ''user'', ''Downloads'', ''report.txt'']
                    [''home'', ''user'', ''Downloads'', ''Documents'', ''report.txt''],
               Mkdir [''home'', ''user'', ''Downloads'', ''Duplicates (Removed)''] False]\<rparr>"
proof -
  let ?s = "fst (process_file example_lib example_folder ''Category Only'' True None 2 1
              report_txt (initial_state 2))"
  let ?s' = "fst (process_file example_lib example_folder ''Category Only'' True None 2 2
              stuck_copy_txt ?s)"
  let ?e = "OSError ''[Errno 13] Permission denied''"
  have size: "st_size stuck_copy_txt = Inr 5"
    by code_simp
  have hash: "calculate_hash example_lib stuck_copy_txt = Some ''5d41402abc4b2a76b9719d911017c592''"
    by code_simp
  have seen: "dict_contains (seen_hashes ?s) ''5d41402abc4b2a76b9719d911017c592''"
    by code_simp
  have mkdir: "mkdir_error stuck_copy_txt = None"
    by code_simp
  have move: "move_error stuck_copy_txt = Some ?e"
    by code_simp
  have line: "''ERROR moving '' @ name stuck_copy_txt @ '': '' @ str_error ?e
      = ''ERROR moving copy.txt: [Errno 13] Permission denied''"
    by code_simp
  have before: "duplicate_files ?s = 0" "saved_bytes ?s = 0"
    "logs (analytics ?s) = [''Moved: report.txt '' @ rightwards_arrow @ '' Documents'']"
    by code_simp+
  have fails: "mkdir_error stuck_copy_txt = Some ?e
      \<or> mkdir_error stuck_copy_txt = None \<and> move_error stuck_copy_txt = Some ?e"
    using mkdir move by simp
  note claim = duplicate_counted_before_move [OF size TrueI hash seen,
      of example_folder "''Category Only''" None 2 2]
  from conjunct1 [OF claim] have counted: "duplicate_files ?s' = 1"
    unfolding before by simp
  from conjunct1 [OF conjunct2 [OF claim]] have saved: "saved_bytes ?s' = 5"
    unfolding before by simp
  note failed = claim [THEN conjunct2, THEN conjunct2, THEN conjunct2, rule_format, OF fails]
  from conjunct1 [OF failed]
  have logged: "logs (analytics ?s') =
      [''Moved: report.txt '' @ rightwards_arrow @ '' Documents'',
       ''ERROR moving copy.txt: [Errno 13] Permission denied'']"
    unfolding before line by simp
  show ?thesis
    by (intro conjI) (fact size hash seen mkdir move counted saved logged run_stuck_copy)+
qed

text \<open>
  C7 (as amended). A file whose size was read, whose content cannot be read for hashing and
  that has a category, in a run that checks duplicates: the digest is absent, the counter of
  the file's category is incremented, the duplicate counter, the saved bytes and
  \<open>seen_hashes\<close> are unchanged, and the only move the iteration can perform takes the file
  into its categorized destination (never into \<open>Duplicates (Removed)\<close>, and nothing is
  deleted). When the destination is resolved and the directory creation and the move
  succeed, the iteration creates the destination, moves the file there and logs
  \<open>Moved: <name> \<rightarrow> <destination below the folder>\<close>.
\<close>

theorem unreadable_file_is_organized:
  assumes size: "st_size f = Inr sz"
    and chk: "chk"
    and unreadable: "read_error f = Some e0"
    and category: "get_category l (suffix f) = Inr c"
  shows "calculate_hash l f = None
     \<and> category_count (analytics (fst (process_file l folder m chk cb t i f s))) c
        = category_count (analytics s) c + 1
     \<and> duplicate_files (fst (process_file l folder m chk cb t i f s)) = duplicate_files s
     \<and> saved_bytes (fst (process_file l folder m chk cb t i f s)) = saved_bytes s
     \<and> seen_hashes (fst (process_file l folder m chk cb t i f s)) = seen_hashes s
     \<and> (\<exists>ops. fs_ops (fst (process_file l folder m chk cb t i f s)) = fs_ops s @ ops
           \<and> (\<forall>p q. Move p q \<in> set ops \<longrightarrow>
                 p = folder @ [name f]
                 \<and> (\<exists>d. get_destination_path l folder f c m = Inr d \<and> q = d @ [name f])))
     \<and> (\<forall>d. get_destination_path l folder f c m = Inr d \<longrightarrow>
           mkdir_error f = None \<longrightarrow> move_error f = None \<longrightarrow>
           fs_ops (fst (process_file l folder m chk cb t i f s))
             = fs_ops s @ [Mkdir d True, Move (folder @ [name f]) (d @ [name f])]
           \<and> logs (analytics (fst (process_file l folder m chk cb t i f s)))
             = logs (analytics s) @
                 [''Moved: '' @ name f @ '' '' @ rightwards_arrow @ '' ''
                    @ str_path (drop (length folder) d)])"
proof -
  let ?s' = "fst (process_file l folder m chk cb t i f s)"
  have hash: "calculate_hash l f = None"
    using unreadable by (rule calculate_hash_unreadable)
  then have not_duplicate:
    "\<not> (chk \<and> (\<exists>h. calculate_hash l f = Some h \<and> dict_contains (seen_hashes s) h))"
    by simp
  note frame = process_file_not_duplicate [OF size not_duplicate, of folder m cb t i]
  have counted: "category_count (analytics ?s') c = category_count (analytics s) c + 1"
    using size not_duplicate category by (simp add: process_file_category_count)
  have dup: "duplicate_files ?s' = duplicate_files s" "saved_bytes ?s' = saved_bytes s"
    "seen_hashes ?s' = seen_hashes s"
    using frame(2,3,4) chk hash by simp_all
  have ops: "fs_ops ?s' = fs_ops s @
     (case get_destination_path l folder f c m of
        Inl e \<Rightarrow> []
      | Inr d \<Rightarrow>
          if mkdir_error f = None
          then Mkdir d True #
                 (if move_error f = None then [Move (folder @ [name f]) (d @ [name f])] else [])
          else [])"
    using frame(5) category by simp
  have moves: "\<exists>ops. fs_ops ?s' = fs_ops s @ ops
           \<and> (\<forall>p q. Move p q \<in> set ops \<longrightarrow>
                 p = folder @ [name f]
                 \<and> (\<exists>d. get_destination_path l folder f c m = Inr d \<and> q = d @ [name f]))"
    unfolding ops by (auto split: sum.splits if_splits)
  have moved: "fs_ops ?s' = fs_ops s @ [Mkdir d True, Move (folder @ [name f]) (d @ [name f])]
      \<and> logs (analytics ?s') = logs (analytics s) @
          [''Moved: '' @ name f @ '' '' @ rightwards_arrow @ '' ''
             @ str_path (drop (length folder) d)]"
    if "get_destination_path l folder f c m = Inr d" "mkdir_error f = None"
      "move_error f = None" for d
    unfolding ops process_file_logs if_not_P [OF not_duplicate]
    using that by (simp add: size category)
  from hash counted dup moves moved show ?thesis
    by blast
qed

text \<open>
  The move itself can fail. A file that can be neither read nor moved is counted in its
  category and stays where it was: the run performs no move and logs the error.
\<close>

theorem unreadable_file_left_in_place:
  "calculate_hash example_lib locked_stuck_txt = None
   \<and> organize_files example_lib example_folder ''Category Only'' True None
     (Inr [locked_stuck_txt]) =
     Inr \<lparr>returned_logs = [''ERROR moving notes.txt: [Errno 13] Permission denied''],
          returned_analytics =
            \<lparr>total_files = 1, total_size_bytes = 5, categories = [(''Documents'', 1)],
             time_taken_sec = 1 / 4, duplicates_removed = 0, space_saved_bytes = 0,
             logs = [''ERROR moving notes.txt: [Errno 13] Permission denied'']\<rparr>,
          emitted = [],
          performed = [Mkdir [''home'', ''user'', ''Downloads'', ''Documents''] True]\<rparr>"
  by code_simp

theorem unreadable_file_is_organized_witness:
  "st_size locked_txt = Inr 5
   \<and> read_error locked_txt = Some (OSError ''[Errno 13] Permission denied'')
   \<and> get_category example_lib (suffix locked_txt) = Inr ''Documents''
   \<and> get_destination_path example_lib example_folder locked_txt ''Documents'' ''Category Only''
       = Inr [''home'', ''user'', ''Downloads'', ''Documents'']
   \<and> mkdir_error locked_txt = None
   \<and> move_error locked_txt = None
   \<and> calculate_hash example_lib locked_txt = None
   \<and> category_count
        (analytics (fst (process_file example_lib example_folder ''Category Only'' True None 1 1
           locked_txt (initial_state 1)))) ''Documents'' = 1
   \<and> duplicate_files (fst (process_file example_lib example_folder ''Category Only'' True None
           1 1 locked_txt (initial_state 1))) = 0
   \<and> seen_hashes (fst (process_file example_lib example_folder ''Category Only'' True None 1 1
           locked_txt (initial_state 1))) = []
   \<and> fs_ops (fst (process_file example_lib example_folder ''Category Only'' True None 1 1
           locked_txt (initial_state 1)))
       = [Mkdir [''home'', ''user'', ''Downloads'', ''Documents''] True,
          Move [''home'', ''user'', ''Downloads'', ''notes.txt'']
               [''home'', ''user'', ''Downloads'', ''Documents'', ''notes.txt'']]
   \<and> logs (analytics (fst (process_file example_lib example_folder ''Category Only'' True None
           1 1 locked_txt (initial_state 1))))
       = [''Moved: notes.txt '' @ rightwards_arrow @ '' Documents'']"
proof -
  let ?s' = "fst (process_file example_lib example_folder ''Category Only'' True None 1 1
           locked_txt (initial_state 1))"
  let ?d = "[''home'', ''user'', ''Downloads'', ''Documents'']"
  have size: "st_size locked_txt = Inr 5"
    by code_simp
  have unreadable: "read_error locked_txt = Some (OSError ''[Errno 13] Permission denied'')"
    by code_simp
  have category: "get_category example_lib (suffix locked_txt) = Inr ''Documents''"
    by code_simp
  have dest: "get_destination_path example_lib example_folder locked_txt ''Documents''
        ''Category Only'' = Inr ?d"
    by code_simp
  have mkdir: "mkdir_error locked_txt = None"
    by code_simp
  have move: "move_error locked_txt = None"
    by code_simp
  have paths: "example_folder @ [name locked_txt] = [''home'', ''user'', ''Downloads'', ''notes.txt'']"
    "?d @ [name locked_txt] = [''home'', ''user'', ''Downloads'', ''Documents'', ''notes.txt'']"
    "''Moved: '' @ name locked_txt @ '' '' @ rightwards_arrow @ '' ''
       @ str_path (drop (length example_folder) ?d)
     = ''Moved: notes.txt '' @ rightwards_arrow @ '' Documents''"
    by code_simp+
  have initial: "category_count (analytics (initial_state 1)) ''Documents'' = 0"
    "logs (analytics (initial_state 1)) = []" "fs_ops (initial_state 1) = []"
    "duplicate_files (initial_state 1) = 0" "seen_hashes (initial_state 1) = []"
    by (simp_all add: initial_state_def category_count_def)
  note claim = unreadable_file_is_organized [OF size TrueI unreadable category,
      of example_folder "''Category Only''" None 1 1 "initial_state 1"]
  from conjunct1 [OF claim] have hash: "calculate_hash example_lib locked_txt = None" .
  from claim [THEN conjunct2, THEN conjunct1]
  have counted: "category_count (analytics ?s') ''Documents'' = 1"
    unfolding initial by simp
  from claim [THEN conjunct2, THEN conjunct2, THEN conjunct1]
  have dup: "duplicate_files ?s' = 0"
    unfolding initial .
  from claim [THEN conjunct2, THEN conjunct2, THEN conjunct2, THEN conjunct2, THEN conjunct1]
  have seen: "seen_hashes ?s' = []"
    unfolding initial .
  note moved = claim [THEN conjunct2, THEN conjunct2, THEN conjunct2, THEN conjunct2,
      THEN conjunct2, THEN conjunct2, rule_format, OF dest mkdir move]
  from conjunct1 [OF moved]
  have ops: "fs_ops ?s' = [Mkdir ?d True,
          Move [''home'', ''user'', ''Downloads'', ''notes.txt'']
               [''home'', ''user'', ''Downloads'', ''Documents'', ''notes.txt'']]"
    unfolding initial paths by simp
  from conjunct2 [OF moved]
  have logged: "logs (analytics ?s') = [''Moved: notes.txt '' @ rightwards_arrow @ '' Documents'']"
    unfolding initial paths by simp
  show ?thesis
    by (intro conjI)
      (fact size unreadable category dest mkdir move hash counted dup seen ops logged)+
qed

end
